theory Spec2Isabelle
  imports Main "HOL-Library.Sublist" "HOL-Library.AList" "HOL-Library.Char_ord"
    "HOL-Library.List_Lexorder"
begin

section \<open>Python primitives used by devops/helpers/templates.py\<close>

text \<open>
  Exceptions are values. \<open>DevopsError\<close> is the only exception class the module raises
  itself (\<open>error.DevopsError\<close>); the others are the built-in exceptions that the
  dictionary lookups, list indexing, \<open>int()\<close>, \<open>next()\<close>, the address library and the
  YAML parser raise.
\<close>

datatype error =
    DevopsError string
  | KeyError string
  | IndexError
  | ValueError
  | StopIteration
  | AddrFormatError
  | YAMLError
  | TypeError

fun is_DevopsError :: "error + 'a \<Rightarrow> bool" where
  "is_DevopsError (Inl (DevopsError m)) = True"
| "is_DevopsError r = False"

text \<open>Sequencing of a computation that may raise.\<close>

definition bind_err :: "error + 'a \<Rightarrow> ('a \<Rightarrow> error + 'b) \<Rightarrow> error + 'b" where
  "bind_err r f = (case r of Inl e \<Rightarrow> Inl e | Inr x \<Rightarrow> f x)"

text \<open>A list comprehension whose element expression may raise: the first failure wins.\<close>

fun map_err :: "('a \<Rightarrow> error + 'b) \<Rightarrow> 'a list \<Rightarrow> error + 'b list" where
  "map_err f [] = Inr []"
| "map_err f (x # xs) =
     (case f x of
        Inl e \<Rightarrow> Inl e
      | Inr y \<Rightarrow> (case map_err f xs of Inl e \<Rightarrow> Inl e | Inr ys \<Rightarrow> Inr (y # ys)))"

subsection \<open>Library calls on lib inputs\<close>

text \<open>
  \<open>int()\<close> and the address library \<open>netaddr\<close> are written out below for the inputs
  whose result does not depend on the version of the interpreter or of the library: a
  decimal number in ASCII digits, a canonical IPv4 network, a subnet prefix within the
  address width. What they do on every other input is a parameter of the model. A network
  is its address value, its prefix length and the width of its address family.
\<close>

type_synonym network = "int \<times> nat \<times> nat"

record library =
  int_other :: "string \<Rightarrow> error + int"
  network_other :: "string \<Rightarrow> error + network"
  subnet_size_other :: "network \<Rightarrow> int \<Rightarrow> error + int"

subsection \<open>Decimal rendering: \<open>str(n)\<close> and \<open>int(s)\<close>\<close>

definition digit_char :: "nat \<Rightarrow> char" where
  "digit_char d = ''0123456789'' ! d"

fun digits :: "nat \<Rightarrow> string" where
  "digits n = (if n < 10 then [digit_char n] else digits (n div 10) @ [digit_char (n mod 10)])"

declare digits.simps [simp del]

definition str :: "int \<Rightarrow> string" where
  "str i = (if i < 0 then CHR ''-'' # digits (nat (- i)) else digits (nat i))"

definition is_digit :: "char \<Rightarrow> bool" where
  "is_digit c = (c \<in> set ''0123456789'')"

definition digit_val :: "char \<Rightarrow> nat" where
  "digit_val c = of_char c - 48"

definition digits_val :: "string \<Rightarrow> nat" where
  "digits_val s = foldl (\<lambda>a c. 10 * a + digit_val c) 0 s"

text \<open>\<open>s.strip()\<close>: leading and trailing white space removed.\<close>

definition is_space :: "char \<Rightarrow> bool" where
  "is_space c = (of_char c \<in> {9, 10, 11, 12, 13, 32 :: nat})"

definition strip :: "string \<Rightarrow> string" where
  "strip s = rev (dropWhile is_space (rev (dropWhile is_space s)))"

text \<open>
  \<open>int(s)\<close> on a string: optional surrounding ASCII white space, an optional sign and
  decimal ASCII digits give the number; any other string is left to the library
  parameter (it raises \<open>ValueError\<close>, or is a spelling that only some versions read).
\<close>

definition py_int :: "library \<Rightarrow> string \<Rightarrow> error + int" where
  "py_int lib s =
     (let t = strip s;
          (neg, ds) = (case t of
                         c # r \<Rightarrow> if c = CHR ''-'' then (True, r)
                                  else if c = CHR ''+'' then (False, r) else (False, t)
                       | [] \<Rightarrow> (False, t))
      in if ds = [] \<or> \<not> list_all is_digit ds then int_other lib s
         else Inr (if neg then - int (digits_val ds) else int (digits_val ds)))"

subsection \<open>Strings and ranges\<close>

text \<open>\<open>sep.join(xs)\<close>.\<close>

fun join :: "string \<Rightarrow> string list \<Rightarrow> string" where
  "join sep [] = []"
| "join sep [x] = x"
| "join sep (x # y # ys) = x @ sep @ join sep (y # ys)"

text \<open>\<open>range(a, b)\<close> over Python integers: empty when \<open>b \<le> a\<close>.\<close>

definition py_range :: "int \<Rightarrow> int \<Rightarrow> int list" where
  "py_range a b = [a..b - 1]"

text \<open>\<open>s.split(sep, 1)\<close> for a one-character separator: cut at its first occurrence.\<close>

definition split1 :: "char \<Rightarrow> string \<Rightarrow> string list" where
  "split1 sep s =
     (if sep \<in> set s
      then [takeWhile (\<lambda>c. c \<noteq> sep) s, tl (dropWhile (\<lambda>c. c \<noteq> sep) s)]
      else [s])"

text \<open>\<open>s.split(sep)\<close> for a one-character separator.\<close>

fun split :: "char \<Rightarrow> string \<Rightarrow> string list" where
  "split sep [] = [[]]"
| "split sep (c # cs) =
     (if c = sep then [] # split sep cs
      else (case split sep cs of x # xs \<Rightarrow> (c # x) # xs | [] \<Rightarrow> [[c]]))"

subsection \<open>Dictionaries\<close>

text \<open>
  A dictionary is an association list read through \<open>map_of\<close>; an assignment
  \<open>d[k] = v\<close> is \<open>AList.update k v d\<close> (a new key is appended, an old key keeps its place
  and takes the new value), and a dictionary comprehension is the fold of these
  assignments over the generated pairs.
\<close>

type_synonym ('k, 'v) dict = "('k \<times> 'v) list"

definition dict_of :: "('k \<times> 'v) list \<Rightarrow> ('k, 'v) dict" where
  "dict_of kvs = fold (\<lambda>(k, v) d. AList.update k v d) kvs []"

definition keys :: "('k, 'v) dict \<Rightarrow> 'k list" where
  "keys d = map fst (dict_of d)"

definition getitem :: "(string, 'v) dict \<Rightarrow> string \<Rightarrow> error + 'v" where
  "getitem d k = (case map_of d k of None \<Rightarrow> Inl (KeyError k) | Some v \<Rightarrow> Inr v)"

section \<open>NUMA cells: \<open>_calculate_numa\<close>\<close>

record numa_cell =
  cpus :: string
  cell_memory :: int

definition numa_cpu_message :: "int \<Rightarrow> int \<Rightarrow> string \<Rightarrow> string" where
  "numa_cpu_message numa_nodes vcpu name =
     ''NUMA_NODES='' @ str numa_nodes @ '' is not a multiple of the number of CPU=''
       @ str vcpu @ '' for node '' @ [CHR 0x27] @ name @ [CHR 0x27]"

definition numa_memory_message :: "int \<Rightarrow> int \<Rightarrow> string \<Rightarrow> string" where
  "numa_memory_message numa_nodes memory name =
     ''NUMA_NODES='' @ str numa_nodes @ '' is not a multiple of the amount of MEMORY=''
       @ str memory @ '' for node '' @ [CHR 0x27] @ name @ [CHR 0x27]"

definition calculate_numa :: "int \<Rightarrow> int \<Rightarrow> int \<Rightarrow> string \<Rightarrow> error + numa_cell list" where
  "calculate_numa numa_nodes vcpu memory name =
     (if numa_nodes = 0 then Inr []
      else
        let cpus_per_numa = vcpu div numa_nodes in
        if cpus_per_numa * numa_nodes \<noteq> vcpu
        then Inl (DevopsError (numa_cpu_message numa_nodes vcpu name))
        else
          let memory_per_numa = memory div numa_nodes in
          if memory_per_numa * numa_nodes \<noteq> memory
          then Inl (DevopsError (numa_memory_message numa_nodes memory name))
          else Inr (map (\<lambda>x. \<lparr> cpus = join '','' (map str (py_range (x * cpus_per_numa)
                                                              ((x + 1) * cpus_per_numa))),
                                cell_memory = memory_per_numa \<rparr>)
                        (py_range 0 numa_nodes)))"

text \<open>The number of CPU ids a cell's comma-joined \<open>cpus\<close> string lists.\<close>

definition cpu_id_count :: "string \<Rightarrow> nat" where
  "cpu_id_count s = (if s = [] then 0 else length (split CHR '','' s))"

subsection \<open>Properties of the NUMA planner\<close>

lemma digit_char_is_digit: "d < 10 \<Longrightarrow> is_digit (digit_char d)"
proof -
  assume "d < 10"
  then have "d \<in> {0,1,2,3,4,5,6,7,8,9}" by auto
  then show ?thesis by (auto simp: is_digit_def digit_char_def)
qed

lemma digits_nonempty: "digits n \<noteq> []"
  by (subst digits.simps) simp

lemma digits_is_digit: "c \<in> set (digits n) \<Longrightarrow> is_digit c"
proof (induction n rule: digits.induct)
  case (1 n)
  show ?case
  proof (cases "n < 10")
    case True
    with "1.prems" show ?thesis
      by (subst (asm) digits.simps) (simp add: digit_char_is_digit)
  next
    case False
    with "1.prems" have "c \<in> set (digits (n div 10)) \<or> c = digit_char (n mod 10)"
      by (subst (asm) digits.simps) auto
    with False "1.IH" show ?thesis
      by (auto simp: digit_char_is_digit)
  qed
qed

lemma comma_not_digit: "\<not> is_digit CHR '',''"
  by (simp add: is_digit_def)

lemma str_nonempty: "str i \<noteq> []"
  by (simp add: str_def digits_nonempty)

lemma str_no_comma: "CHR '','' \<notin> set (str i)"
  using digits_is_digit comma_not_digit by (auto simp: str_def)

lemma split_no_sep: "sep \<notin> set x \<Longrightarrow> split sep x = [x]"
  by (induction x) auto

lemma split_append_sep: "sep \<notin> set x \<Longrightarrow> split sep (x @ sep # r) = x # split sep r"
  by (induction x) auto

lemma split_join:
  "xs \<noteq> [] \<Longrightarrow> \<forall>x\<in>set xs. sep \<notin> set x \<Longrightarrow> split sep (join [sep] xs) = xs"
  by (induction "[sep]" xs rule: join.induct) (auto simp: split_no_sep split_append_sep)

lemma join_nonempty: "xs \<noteq> [] \<Longrightarrow> hd xs \<noteq> [] \<Longrightarrow> join sep xs \<noteq> []"
  by (induction sep xs rule: join.induct) auto

lemma cpu_id_count_join: "cpu_id_count (join '','' (map str is)) = length is"
proof (cases "is")
  case Nil
  then show ?thesis by (simp add: cpu_id_count_def)
next
  case (Cons a as)
  then have "join '','' (map str is) \<noteq> []"
    by (intro join_nonempty) (simp_all add: str_nonempty)
  moreover have "split CHR '','' (join '','' (map str is)) = map str is"
    using Cons by (intro split_join) (auto simp: str_no_comma)
  ultimately show ?thesis by (simp add: cpu_id_count_def)
qed

lemma length_py_range: "length (py_range a b) = nat (b - a)"
  by (simp add: py_range_def)

lemma nth_py_range: "i < nat (b - a) \<Longrightarrow> py_range a b ! i = a + int i"
  by (simp add: py_range_def)

lemma calculate_numa_even:
  assumes "numa_nodes \<noteq> 0" "vcpu mod numa_nodes = 0" "memory mod numa_nodes = 0"
  shows "calculate_numa numa_nodes vcpu memory name =
     Inr (map (\<lambda>x. \<lparr> cpus = join '','' (map str (py_range (x * (vcpu div numa_nodes))
                                                   ((x + 1) * (vcpu div numa_nodes)))),
                      cell_memory = memory div numa_nodes \<rparr>)
              (py_range 0 numa_nodes))"
proof -
  have "vcpu div numa_nodes * numa_nodes = vcpu" "memory div numa_nodes * numa_nodes = memory"
    using assms by auto
  with assms(1) show ?thesis
    by (simp add: calculate_numa_def Let_def)
qed

text \<open>
  Claim C1. For every \<open>numa_nodes > 0\<close> and every \<open>vcpu\<close> and \<open>memory\<close> that
  \<open>numa_nodes\<close> divides, \<open>_calculate_numa\<close> returns exactly \<open>numa_nodes\<close> cells; cell
  \<open>i\<close> holds the comma-joined decimal CPU ids from \<open>i * (vcpu div numa_nodes)\<close> up to
  \<open>(i + 1) * (vcpu div numa_nodes) - 1\<close> and the memory share \<open>memory div numa_nodes\<close>.
  The memory shares sum to \<open>memory\<close>, and for a CPU count (\<open>vcpu \<ge> 0\<close>) the numbers of ids
  listed in the cells sum to \<open>vcpu\<close>.
\<close>

theorem calculate_numa_exact_split:
  assumes "0 < numa_nodes" "vcpu mod numa_nodes = 0" "memory mod numa_nodes = 0"
  shows "\<exists>cells. calculate_numa numa_nodes vcpu memory name = Inr cells
     \<and> length cells = nat numa_nodes
     \<and> (\<forall>i < nat numa_nodes. cells ! i =
           \<lparr> cpus = join '','' (map str [int i * (vcpu div numa_nodes) ..
                                         (int i + 1) * (vcpu div numa_nodes) - 1]),
             cell_memory = memory div numa_nodes \<rparr>)
     \<and> (0 \<le> vcpu \<longrightarrow> (\<Sum>c\<leftarrow>cells. int (cpu_id_count (cpus c))) = vcpu)
     \<and> (\<Sum>c\<leftarrow>cells. cell_memory c) = memory"
proof -
  define c where "c = vcpu div numa_nodes"
  define m where "m = memory div numa_nodes"
  define cells where "cells = map (\<lambda>x. \<lparr> cpus = join '','' (map str (py_range (x * c) ((x + 1) * c))),
                      cell_memory = m \<rparr>) (py_range 0 numa_nodes)"
  have res: "calculate_numa numa_nodes vcpu memory name = Inr cells"
    using assms calculate_numa_even[of numa_nodes vcpu memory name]
    by (simp add: cells_def c_def m_def)
  have len: "length cells = nat numa_nodes"
    by (simp add: cells_def length_py_range)
  have nth: "cells ! i = \<lparr> cpus = join '','' (map str [int i * c .. (int i + 1) * c - 1]),
             cell_memory = m \<rparr>" if "i < nat numa_nodes" for i
    using that by (simp add: cells_def length_py_range nth_py_range) (simp add: py_range_def)
  have cm: "c * numa_nodes = vcpu" "m * numa_nodes = memory"
    using assms by (auto simp: c_def m_def)
  have mem: "(\<Sum>c\<leftarrow>cells. cell_memory c) = memory"
    using assms(1) cm(2) by (simp add: cells_def comp_def sum_list_triv length_py_range mult.commute)
  have cnt: "(\<Sum>c\<leftarrow>cells. int (cpu_id_count (cpus c))) = vcpu" if "0 \<le> vcpu"
  proof -
    have "0 \<le> c" using that assms(1) by (simp add: c_def pos_imp_zdiv_nonneg_iff)
    moreover have "(x + 1) * c - x * c = c" for x by (simp add: algebra_simps)
    ultimately show ?thesis
      using assms(1) cm(1)
      by (simp add: cells_def comp_def cpu_id_count_join length_py_range sum_list_triv mult.commute)
  qed
  show ?thesis
    using res len nth mem cnt by (auto simp: c_def m_def)
qed

theorem calculate_numa_exact_split_witness:
  "\<exists>cells. calculate_numa 2 4 1024 ''slave-01'' = Inr cells
     \<and> length cells = 2
     \<and> cells ! 0 = \<lparr> cpus = ''0,1'', cell_memory = 512 \<rparr>
     \<and> cells ! 1 = \<lparr> cpus = ''2,3'', cell_memory = 512 \<rparr>
     \<and> (\<Sum>c\<leftarrow>cells. int (cpu_id_count (cpus c))) = 4
     \<and> (\<Sum>c\<leftarrow>cells. cell_memory c) = 1024"
proof -
  have s: "str 0 = ''0''" "str 1 = ''1''" "str 2 = ''2''" "str 3 = ''3''"
    by (simp_all add: str_def digits.simps digit_char_def)
  have u: "[0..1::int] = [0, 1]" "[2..3::int] = [2, 3]"
    by (simp_all add: upto.simps)
  from calculate_numa_exact_split[of 2 4 1024 "''slave-01''"]
  obtain cells where c: "calculate_numa 2 4 1024 ''slave-01'' = Inr cells"
     "length cells = 2"
     "\<forall>i<2. cells ! i = \<lparr> cpus = join '','' (map str [int i * 2 .. (int i + 1) * 2 - 1]),
             cell_memory = 512 \<rparr>"
     "(\<Sum>c\<leftarrow>cells. int (cpu_id_count (cpus c))) = 4"
     "(\<Sum>c\<leftarrow>cells. cell_memory c) = 1024"
    by auto
  from c(3) have "cells ! 0 = \<lparr> cpus = ''0,1'', cell_memory = 512 \<rparr>"
     "cells ! 1 = \<lparr> cpus = ''2,3'', cell_memory = 512 \<rparr>"
    by (simp_all add: s u)
  with c show ?thesis by simp
qed

text \<open>
  Claim C3. For every \<open>numa_nodes > 0\<close>: when \<open>numa_nodes\<close> does not divide \<open>vcpu\<close>,
  \<open>_calculate_numa\<close> raises the module's \<open>DevopsError\<close> (the specification's validation
  error) with the CPU message, which contains the node's name, and returns no cells; when
  it divides \<open>vcpu\<close> but not \<open>memory\<close>, it raises the same kind of error with the memory
  message, which contains the node's name as well.
\<close>

theorem calculate_numa_rejects_uneven:
  assumes "0 < numa_nodes"
  shows "(vcpu mod numa_nodes \<noteq> 0 \<longrightarrow>
            calculate_numa numa_nodes vcpu memory name =
              Inl (DevopsError (numa_cpu_message numa_nodes vcpu name))
          \<and> sublist name (numa_cpu_message numa_nodes vcpu name))
       \<and> (vcpu mod numa_nodes = 0 \<and> memory mod numa_nodes \<noteq> 0 \<longrightarrow>
            calculate_numa numa_nodes vcpu memory name =
              Inl (DevopsError (numa_memory_message numa_nodes memory name))
          \<and> sublist name (numa_memory_message numa_nodes memory name))"
proof -
  have a: "vcpu div numa_nodes * numa_nodes \<noteq> vcpu" if "vcpu mod numa_nodes \<noteq> 0"
    using that by (metis dvd_triv_right dvd_imp_mod_0)
  have b: "memory div numa_nodes * numa_nodes \<noteq> memory" if "memory mod numa_nodes \<noteq> 0"
    using that by (metis dvd_triv_right dvd_imp_mod_0)
  have c: "vcpu div numa_nodes * numa_nodes = vcpu" if "vcpu mod numa_nodes = 0"
    using that by auto
  have n1: "sublist name (numa_cpu_message numa_nodes vcpu name)"
  proof -
    have "numa_cpu_message numa_nodes vcpu name =
        (''NUMA_NODES='' @ str numa_nodes @ '' is not a multiple of the number of CPU=''
           @ str vcpu @ '' for node '' @ [CHR 0x27]) @ name @ [CHR 0x27]"
      by (simp add: numa_cpu_message_def)
    then show ?thesis by (simp only: sublist_appendI)
  qed
  have n2: "sublist name (numa_memory_message numa_nodes memory name)"
  proof -
    have "numa_memory_message numa_nodes memory name =
        (''NUMA_NODES='' @ str numa_nodes @ '' is not a multiple of the amount of MEMORY=''
           @ str memory @ '' for node '' @ [CHR 0x27]) @ name @ [CHR 0x27]"
      by (simp add: numa_memory_message_def)
    then show ?thesis by (simp only: sublist_appendI)
  qed
  show ?thesis
    using assms a b c n1 n2 by (simp add: calculate_numa_def Let_def)
qed

theorem calculate_numa_rejects_uneven_witness:
  "calculate_numa 2 5 1024 ''slave-01'' =
      Inl (DevopsError (''NUMA_NODES=2 is not a multiple of the number of CPU=5 for node ''
                          @ [CHR 0x27] @ ''slave-01'' @ [CHR 0x27]))
   \<and> sublist ''slave-01'' (numa_cpu_message 2 5 ''slave-01'')
   \<and> calculate_numa 2 4 1025 ''slave-01'' =
      Inl (DevopsError (''NUMA_NODES=2 is not a multiple of the amount of MEMORY=1025 for node ''
                          @ [CHR 0x27] @ ''slave-01'' @ [CHR 0x27]))
   \<and> sublist ''slave-01'' (numa_memory_message 2 1025 ''slave-01'')"
proof -
  have s: "str 2 = ''2''" "str 5 = ''5''" "str 1025 = ''1025''"
    by (simp_all add: str_def digits.simps digit_char_def)
  show ?thesis
    using calculate_numa_rejects_uneven[of 2 5 1024 "''slave-01''"]
          calculate_numa_rejects_uneven[of 2 4 1025 "''slave-01''"]
    by (simp add: numa_cpu_message_def numa_memory_message_def s)
qed


section \<open>Node specifications: \<open>create_admin_config\<close> and \<open>create_slave_config\<close>\<close>

text \<open>
  The dictionaries the module builds have fixed keys and are records here; a key that
  only some of them carry is an optional field. \<open>vol_name\<close>, \<open>vol_format\<close>,
  \<open>node_name\<close> and \<open>node_role\<close> are the keys \<open>name\<close>, \<open>format\<close>, \<open>name\<close> and \<open>role\<close>;
  the fields of \<open>node_params\<close> are the keys of the \<open>params\<close> dictionary.
\<close>

record interface =
  label :: string
  l2_network_device :: string
  interface_model :: string

record volume =
  vol_name :: string
  capacity :: "int option"
  vol_format :: "string option"
  source_image :: "string option"
  device :: "string option"
  bus :: "string option"
  multipath_count :: "int option"

text \<open>
  \<open>network_config\<close> maps an interface label to its \<open>{'networks': [...]}\<close> entry; the
  entry has that one key and is represented by its list.
\<close>

record node_params =
  params_vcpu :: int
  params_memory :: int
  boot :: "string list"
  bootmenu_timeout :: "int option"
  numa :: "numa_cell list"
  volumes :: "volume list"
  interfaces :: "interface list"
  network_config :: "(string, string list) dict"

record node =
  node_name :: string
  node_role :: string
  params :: node_params

record nodegroup =
  nodegroup_name :: string
  pools :: "string list"

text \<open>
  The interface list built from an ordering: \<open>iface<n>\<close> for the \<open>n\<close>-th entry. The
  source writes this comprehension three times (admin node, slave node, slave node with
  node groups).
\<close>

definition enumerate_interfaces :: "string list \<Rightarrow> interface list" where
  "enumerate_interfaces order =
     map (\<lambda>(n, iname). \<lparr> label = ''iface'' @ str (int n),
                          l2_network_device = iname,
                          interface_model = ''e1000'' \<rparr>)
         (List.enumerate 0 order)"

text \<open>
  The deprecated bonding branch: the dictionary \<open>{net_name: [eth0, eth1]}\<close> is inverted
  into \<open>{eth0: net_name, eth1: net_name}\<close> and the interfaces are listed by sorted label.
  Iterating a dictionary and reading \<open>d[k]\<close> for each key \<open>k\<close> is iterating its items.
\<close>

definition bonding_ifaces :: "(string, string list) dict \<Rightarrow> (string, string) dict" where
  "bonding_ifaces networks_bondinginterfaces =
     dict_of (concat (map (\<lambda>(iname, labels). map (\<lambda>label. (label, iname)) labels)
                          (dict_of networks_bondinginterfaces)))"

definition bonding_interfaces :: "(string, string list) dict \<Rightarrow> interface list" where
  "bonding_interfaces networks_bondinginterfaces =
     map (\<lambda>(label, iname). \<lparr> label = label,
                              l2_network_device = iname,
                              interface_model = ''e1000'' \<rparr>)
         (sort_key fst (bonding_ifaces networks_bondinginterfaces))"

definition network_config_of :: "interface list \<Rightarrow> (string, string list) dict" where
  "network_config_of ifaces =
     dict_of (map (\<lambda>iface. (label iface,
                             [if l2_network_device iface \<noteq> ''admin''
                              then l2_network_device iface else ''fuelweb_admin'']))
                  ifaces)"

definition create_admin_config ::
  "int \<Rightarrow> int \<Rightarrow> int \<Rightarrow> string \<Rightarrow> string \<Rightarrow> string list \<Rightarrow> int \<Rightarrow> bool
     \<Rightarrow> (string, string list) dict \<Rightarrow> error + node" where
  "create_admin_config admin_vcpu admin_memory admin_sysvolume_capacity admin_iso_path
       boot_from interfaceorder numa_nodes networks_bonding networks_bondinginterfaces =
     (let admin_interfaces =
            (if networks_bonding then bonding_interfaces networks_bondinginterfaces
             else enumerate_interfaces interfaceorder);
          network_config = network_config_of admin_interfaces;
          (boot_device_order, iso_device, iso_bus, bootmenu_timeout) =
            (if boot_from = ''usb'' then ([''hd''], ''disk'', ''usb'', 3000 :: int)
             else ([''hd'', ''cdrom''], ''cdrom'', ''ide'', 0))
      in bind_err (calculate_numa numa_nodes admin_vcpu admin_memory ''admin'') (\<lambda>numa.
           Inr \<lparr> node_name = ''admin'',
                 node_role = ''fuel_master'',
                 params = \<lparr>
                   params_vcpu = admin_vcpu,
                   params_memory = admin_memory,
                   boot = boot_device_order,
                   bootmenu_timeout = Some bootmenu_timeout,
                   numa = numa,
                   volumes = [
                     \<lparr> vol_name = ''system'', capacity = Some admin_sysvolume_capacity,
                       vol_format = Some ''qcow2'', source_image = None, device = None,
                       bus = None, multipath_count = None \<rparr>,
                     \<lparr> vol_name = ''iso'', capacity = None,
                       vol_format = Some ''raw'', source_image = Some admin_iso_path,
                       device = Some iso_device, bus = Some iso_bus,
                       multipath_count = None \<rparr>],
                   interfaces = admin_interfaces,
                   network_config = network_config \<rparr> \<rparr>))"

text \<open>\<open>xs[i]\<close> for a non-negative index.\<close>

definition index :: "'a list \<Rightarrow> nat \<Rightarrow> error + 'a" where
  "index xs i = (if i < length xs then Inr (xs ! i) else Inl IndexError)"

text \<open>Truth value of an optional number: \<open>None\<close> and \<open>0\<close> are false.\<close>

definition truthy :: "int option \<Rightarrow> bool" where
  "truthy v = (case v of None \<Rightarrow> False | Some c \<Rightarrow> c \<noteq> 0)"

definition slave_interfaces_of ::
  "library \<Rightarrow> string \<Rightarrow> string list \<Rightarrow> bool \<Rightarrow> nodegroup list \<Rightarrow> bool
     \<Rightarrow> (string, string list) dict \<Rightarrow> error + interface list" where
  "slave_interfaces_of lib slave_name interfaceorder networks_multiplenetworks
       networks_nodegroups networks_bonding networks_bondinginterfaces =
     (if networks_multiplenetworks then
        bind_err (py_int lib (drop (length slave_name - 2) slave_name)) (\<lambda>n.
          let nodegroups_idx = 1 - n mod 2 in
          bind_err (index networks_nodegroups (nat nodegroups_idx)) (\<lambda>g.
            Inr (enumerate_interfaces (pools g))))
      else if networks_bonding then Inr (bonding_interfaces networks_bondinginterfaces)
      else Inr (enumerate_interfaces interfaceorder))"

definition slave_volumes :: "int \<Rightarrow> int option \<Rightarrow> int option \<Rightarrow> bool \<Rightarrow> int \<Rightarrow> volume list" where
  "slave_volumes slave_volume_capacity second_volume_capacity third_volume_capacity
       use_all_disks multipath =
     (let system = \<lparr> vol_name = ''system'', capacity = Some slave_volume_capacity,
                     vol_format = None, source_image = None, device = None, bus = None,
                     multipath_count = Some multipath \<rparr>;
          cinder = (\<lambda>c. \<lparr> vol_name = ''cinder'', capacity = c,
                     vol_format = None, source_image = None, device = None, bus = None,
                     multipath_count = Some multipath \<rparr>);
          swift = (\<lambda>c. \<lparr> vol_name = ''swift'', capacity = c,
                     vol_format = None, source_image = None, device = None, bus = None,
                     multipath_count = None \<rparr>)
      in if use_all_disks then
           [system,
            cinder (if truthy second_volume_capacity then second_volume_capacity
                    else Some slave_volume_capacity),
            swift (if truthy third_volume_capacity then third_volume_capacity
                   else Some slave_volume_capacity)]
         else
           [system]
           @ (if truthy second_volume_capacity then [cinder second_volume_capacity] else [])
           @ (if truthy third_volume_capacity then [swift third_volume_capacity] else []))"

definition create_slave_config ::
  "library \<Rightarrow> string \<Rightarrow> string \<Rightarrow> int \<Rightarrow> int \<Rightarrow> int \<Rightarrow> string list \<Rightarrow> int \<Rightarrow> int option \<Rightarrow> int option
     \<Rightarrow> bool \<Rightarrow> int \<Rightarrow> bool \<Rightarrow> nodegroup list \<Rightarrow> bool \<Rightarrow> (string, string list) dict
     \<Rightarrow> error + node" where
  "create_slave_config lib slave_name slave_role slave_vcpu slave_memory slave_volume_capacity
       interfaceorder numa_nodes second_volume_capacity third_volume_capacity use_all_disks
       multipath networks_multiplenetworks networks_nodegroups networks_bonding
       networks_bondinginterfaces =
     bind_err (slave_interfaces_of lib slave_name interfaceorder networks_multiplenetworks
                 networks_nodegroups networks_bonding networks_bondinginterfaces)
       (\<lambda>slave_interfaces.
          let network_config = network_config_of slave_interfaces;
              volumes = slave_volumes slave_volume_capacity second_volume_capacity
                          third_volume_capacity use_all_disks multipath
          in bind_err (calculate_numa numa_nodes slave_vcpu slave_memory slave_name) (\<lambda>numa.
               Inr \<lparr> node_name = slave_name,
                     node_role = slave_role,
                     params = \<lparr>
                       params_vcpu = slave_vcpu,
                       params_memory = slave_memory,
                       boot = [''network'', ''hd''],
                       bootmenu_timeout = None,
                       numa = numa,
                       volumes = volumes,
                       interfaces = slave_interfaces,
                       network_config = network_config \<rparr> \<rparr>))"

section \<open>Networks: \<open>create_netpools\<close>, \<open>create_address_pools\<close>, \<open>create_l2_network_devices\<close>\<close>

definition create_netpools :: "string list \<Rightarrow> (string, string) dict" where
  "create_netpools interfaceorder =
     fold (\<lambda>iname netpool.
             let netname = (if iname = ''admin'' then ''fuelweb_admin'' else iname)
             in AList.update netname iname netpool)
          interfaceorder []"

record address_pool_params =
  ip_reserved :: "(string, int) dict"
  ip_ranges :: "(string, int list) dict"
  vlan_start :: "int option"
  vlan_end :: "int option"

record address_pool =
  net :: string
  pool_params :: address_pool_params

text \<open>
  The part of the address library (\<open>netaddr\<close>) the module uses. \<open>IPNetwork(s)\<close> is
  written out for the canonical spelling of an IPv4 network: four decimal octets without
  leading zeros and, optionally, a slash and a decimal prefix length of at most 32 without
  leading zeros (32 when absent). Any other spelling (a netmask after the slash, an
  abbreviated or an IPv6 address, an error) is left to the library parameter.
  \<open>next(net.subnet(prefixlen=p)).size\<close> is the size of the first subnet of prefix length
  \<open>p\<close>; \<open>subnet\<close> yields nothing when the requested prefix is shorter than the network's
  own, so \<open>next\<close> raises \<open>StopIteration\<close>; a prefix beyond the address width is left to
  the library parameter.
\<close>

definition decimal :: "string \<Rightarrow> nat option" where
  "decimal s = (if s \<noteq> [] \<and> list_all is_digit s \<and> (length s = 1 \<or> hd s \<noteq> CHR ''0'')
                then Some (digits_val s) else None)"

definition octet :: "string \<Rightarrow> nat option" where
  "octet s = (case decimal s of Some n \<Rightarrow> if n \<le> 255 then Some n else None | None \<Rightarrow> None)"

definition canonical_ipv4_network :: "string \<Rightarrow> network option" where
  "canonical_ipv4_network s =
     (let parts = split1 CHR ''/'' s;
          addr = map octet (split CHR ''.'' (hd parts));
          plen = (case tl parts of
                    [] \<Rightarrow> Some 32
                  | p # _ \<Rightarrow> (case decimal p of
                                Some n \<Rightarrow> if n \<le> 32 then Some n else None
                              | None \<Rightarrow> None))
      in if length addr = 4 \<and> None \<notin> set addr \<and> plen \<noteq> None
         then Some (foldl (\<lambda>a b. 256 * a + int (the b)) 0 addr, the plen, 32)
         else None)"

definition ip_network :: "library \<Rightarrow> string \<Rightarrow> error + network" where
  "ip_network lib s =
     (case canonical_ipv4_network s of
        Some network \<Rightarrow> Inr network
      | None \<Rightarrow> network_other lib s)"

definition first_subnet_size :: "library \<Rightarrow> network \<Rightarrow> int \<Rightarrow> error + int" where
  "first_subnet_size lib network new_prefix =
     (case network of (val, prefixlen, width) \<Rightarrow>
        if \<not> int prefixlen \<le> new_prefix then Inl StopIteration
        else if int width < new_prefix then subnet_size_other lib network new_prefix
        else Inr (2 ^ nat (int width - new_prefix)))"

text \<open>A library that reads nothing but the inputs written out here, for the examples.\<close>

definition canonical_only :: library where
  "canonical_only = \<lparr> int_other = (\<lambda>s. Inl ValueError),
                       network_other = (\<lambda>s. Inl AddrFormatError),
                       subnet_size_other = (\<lambda>network new_prefix. Inl AddrFormatError) \<rparr>"

definition default_address_pool :: "string list \<Rightarrow> address_pool" where
  "default_address_pool subnets =
     \<lparr> net = join '':'' subnets,
       pool_params = \<lparr> ip_reserved = [(''gateway'', 1), (''l2_network_device'', 1)],
                       ip_ranges = [(''default'', [2, - 2])],
                       vlan_start = None,
                       vlan_end = None \<rparr> \<rparr>"

definition set_vlan :: "address_pool \<Rightarrow> address_pool" where
  "set_vlan p = p\<lparr> pool_params := (pool_params p)\<lparr> vlan_start := Some 900, vlan_end := Some 999 \<rparr> \<rparr>"

definition set_floating :: "int \<Rightarrow> address_pool \<Rightarrow> address_pool" where
  "set_floating network_size p =
     p\<lparr> pool_params := (pool_params p)\<lparr> ip_ranges :=
          AList.update ''floating'' [network_size div 2, - 2]
            (AList.update ''default'' [2, network_size div 2 - 1]
               (ip_ranges (pool_params p))) \<rparr> \<rparr>"

text \<open>One round of the loop over the pool names.\<close>

definition address_pool_step ::
  "library \<Rightarrow> (string, string list) dict \<Rightarrow> string \<Rightarrow> (string, address_pool) dict
     \<Rightarrow> error + (string, address_pool) dict" where
  "address_pool_step lib networks_pools address_pool address_pools =
     (let pools1 = (if sublist ''private'' address_pool
                    then AList.map_entry address_pool set_vlan address_pools
                    else address_pools)
      in if sublist ''public'' address_pool then
           bind_err (getitem networks_pools ''public'') (\<lambda>public.
           bind_err (index public 0) (\<lambda>first.
           bind_err (ip_network lib first) (\<lambda>network.
           bind_err (index public 1) (\<lambda>second.
           bind_err (py_int lib second) (\<lambda>new_prefix.
           bind_err (first_subnet_size lib network new_prefix) (\<lambda>network_size.
             Inr (AList.map_entry address_pool (set_floating network_size) pools1)))))))
         else Inr pools1)"

fun address_pool_loop ::
  "library \<Rightarrow> (string, string list) dict \<Rightarrow> string list \<Rightarrow> (string, address_pool) dict
     \<Rightarrow> error + (string, address_pool) dict" where
  "address_pool_loop lib networks_pools [] address_pools = Inr address_pools"
| "address_pool_loop lib networks_pools (k # ks) address_pools =
     bind_err (address_pool_step lib networks_pools k address_pools)
       (address_pool_loop lib networks_pools ks)"

definition create_address_pools ::
  "library \<Rightarrow> string list \<Rightarrow> (string, string list) dict \<Rightarrow> error + (string, address_pool) dict" where
  "create_address_pools lib interfaceorder networks_pools =
     bind_err (map_err (\<lambda>iname. bind_err (getitem networks_pools iname) (\<lambda>subnets.
                                   Inr (iname, default_address_pool subnets)))
                       interfaceorder)
       (\<lambda>items. let address_pools = dict_of items
                 in address_pool_loop lib networks_pools (map fst address_pools) address_pools)"

record l2_device =
  l2_address_pool :: string
  dhcp :: bool
  forward_mode :: string

definition create_l2_network_devices ::
  "string list \<Rightarrow> (string, bool) dict \<Rightarrow> (string, string) dict
     \<Rightarrow> error + (string, l2_device) dict" where
  "create_l2_network_devices interfaceorder networks_dhcp networks_forwarding =
     bind_err (map_err (\<lambda>iname. bind_err (getitem networks_dhcp iname) (\<lambda>d.
                                 bind_err (getitem networks_forwarding iname) (\<lambda>f.
                                   Inr (iname, \<lparr> l2_address_pool = iname, dhcp = d,
                                                  forward_mode = f \<rparr>))))
                       interfaceorder)
       (\<lambda>items. Inr (dict_of items))"

section \<open>Properties of the node and network builders\<close>

subsection \<open>Decimal numbers, dictionaries and interface labels\<close>

lemma digit_val_digit_char: "d < 10 \<Longrightarrow> digit_val (digit_char d) = d"
proof -
  assume "d < 10"
  then have "d \<in> {0,1,2,3,4,5,6,7,8,9}" by auto
  then show ?thesis by (auto simp: digit_val_def digit_char_def)
qed

lemma digits_val_snoc: "digits_val (s @ [c]) = 10 * digits_val s + digit_val c"
  by (simp add: digits_val_def)

lemma digits_val_digits: "digits_val (digits n) = n"
proof (induction n rule: digits.induct)
  case (1 n)
  show ?case
  proof (cases "n < 10")
    case True
    then show ?thesis
      by (subst digits.simps) (simp add: digits_val_def digit_val_digit_char)
  next
    case False
    then have "digits_val (digits n) = 10 * digits_val (digits (n div 10)) + digit_val (digit_char (n mod 10))"
      by (subst digits.simps) (simp add: digits_val_snoc)
    with False "1.IH" show ?thesis
      by (simp add: digit_val_digit_char)
  qed
qed

lemma str_nat_inj: "str (int m) = str (int n) \<Longrightarrow> m = n"
  by (metis digits_val_digits str_def nat_int not_less of_nat_0_le_iff)

lemma map_of_fold_update:
  "map_of (fold (\<lambda>(k, v) d. AList.update k v d) kvs d) = map_of d ++ map_of (rev kvs)"
proof (induction kvs arbitrary: d)
  case Nil
  show ?case by simp
next
  case (Cons kv kvs)
  obtain k v where kv: "kv = (k, v)" by (cases kv)
  show ?case
    by (rule ext) (simp add: kv Cons.IH update_conv' map_add_def split: option.splits)
qed

lemma map_of_dict_of: "map_of (dict_of kvs) = map_of (rev kvs)"
  by (simp add: dict_of_def map_of_fold_update)

lemma distinct_fold_update:
  "distinct (map fst d) \<Longrightarrow> distinct (map fst (fold (\<lambda>(k, v) d. AList.update k v d) kvs d))"
  by (induction kvs arbitrary: d) (auto simp: distinct_update)

lemma distinct_dict_of: "distinct (map fst (dict_of kvs))"
  by (simp add: dict_of_def distinct_fold_update)

lemma keys_dict_of: "set (map fst (dict_of kvs)) = fst ` set kvs"
proof -
  have "set (map fst (dict_of kvs)) = dom (map_of (dict_of kvs))"
    by (simp add: dom_map_of_conv_image_fst)
  also have "\<dots> = fst ` set kvs"
    by (simp add: map_of_dict_of dom_map_of_conv_image_fst)
  finally show ?thesis .
qed

lemma set_dict_of: "set (dict_of kvs) \<subseteq> set kvs"
proof
  fix kv assume a: "kv \<in> set (dict_of kvs)"
  obtain k v where kv: "kv = (k, v)" by (cases kv)
  from a kv have "map_of (dict_of kvs) k = Some v"
    by (intro map_of_is_SomeI distinct_dict_of) simp
  then have "(k, v) \<in> set (rev kvs)"
    unfolding map_of_dict_of by (rule map_of_SomeD)
  with kv show "kv \<in> set kvs" by simp
qed

lemma map_of_unique_value:
  "(k, v) \<in> set xs \<Longrightarrow> \<forall>(k', v') \<in> set xs. k' = k \<longrightarrow> v' = v \<Longrightarrow> map_of xs k = Some v"
  by (induction xs) auto

lemma map_of_dict_of_unique:
  "(k, v) \<in> set kvs \<Longrightarrow> \<forall>(k', v') \<in> set kvs. k' = k \<longrightarrow> v' = v
    \<Longrightarrow> map_of (dict_of kvs) k = Some v"
  unfolding map_of_dict_of by (rule map_of_unique_value) auto

lemma map_fst_zip_fun:
  "length xs = length ys \<Longrightarrow> map (\<lambda>x. g (fst x)) (zip xs ys) = map g xs"
  by (induction xs ys rule: list_induct2) auto

lemma label_enumerate_interfaces:
  "map label (enumerate_interfaces order) = map (\<lambda>n. ''iface'' @ str (int n)) [0..<length order]"
  using map_fst_zip_fun[of "[0..<length order]" order "\<lambda>n. ''iface'' @ str (int n)"]
  by (simp add: enumerate_interfaces_def enumerate_eq_zip comp_def case_prod_beta)

lemma device_enumerate_interfaces:
  "map l2_network_device (enumerate_interfaces order) = order"
  by (simp add: enumerate_interfaces_def enumerate_eq_zip comp_def case_prod_beta)

lemma distinct_label_enumerate_interfaces:
  "distinct (map label (enumerate_interfaces order))"
  unfolding label_enumerate_interfaces
  by (auto simp: distinct_map inj_on_def dest: str_nat_inj)

lemma distinct_label_bonding_interfaces:
  "distinct (map label (bonding_interfaces bi))"
proof -
  have "map label (bonding_interfaces bi) = map fst (sort_key fst (bonding_ifaces bi))"
    by (simp add: bonding_interfaces_def comp_def case_prod_beta)
  moreover have "distinct (map fst (bonding_ifaces bi))"
    by (simp add: bonding_ifaces_def distinct_dict_of)
  ultimately show ?thesis
    by (simp add: distinct_map inj_on_def)
qed

lemma network_config_of_lookup:
  assumes "distinct (map label ifaces)" "iface \<in> set ifaces"
  shows "map_of (network_config_of ifaces) (label iface) =
           Some [if l2_network_device iface = ''admin'' then ''fuelweb_admin''
                 else l2_network_device iface]"
proof -
  have "\<And>i. i \<in> set ifaces \<Longrightarrow> label i = label iface \<Longrightarrow> i = iface"
    using assms by (meson distinct_map inj_on_def)
  then show ?thesis
    unfolding network_config_of_def
    by (intro map_of_dict_of_unique) (use assms(2) in auto)
qed

lemma network_config_of_keys:
  "fst ` set (network_config_of ifaces) = label ` set ifaces"
  using keys_dict_of[of "map (\<lambda>iface. (label iface,
                             [if l2_network_device iface \<noteq> ''admin''
                              then l2_network_device iface else ''fuelweb_admin''])) ifaces"]
  by (simp add: network_config_of_def image_image)

lemma create_netpools_dict_of:
  "create_netpools interfaceorder =
     dict_of (map (\<lambda>iname. (if iname = ''admin'' then ''fuelweb_admin'' else iname, iname))
                  interfaceorder)"
  by (simp add: create_netpools_def dict_of_def fold_map comp_def)

subsection \<open>The admin node's boot mode\<close>

text \<open>
  Claim C4, as the code has it. For the admin node built by \<open>create_admin_config\<close>, the
  second volume is the iso volume. When \<open>boot_from = "usb"\<close> it uses device \<open>disk\<close> and bus
  \<open>usb\<close>, the boot order is \<open>hd\<close> and the boot menu timeout is 3000; for every other
  \<open>boot_from\<close> it uses device \<open>cdrom\<close> and bus \<open>ide\<close>, the boot order is \<open>hd, cdrom\<close> and
  the boot menu timeout is 0. (The claim has the two timeouts the other way round.)
\<close>

theorem admin_boot_mode:
  assumes "create_admin_config admin_vcpu admin_memory admin_sysvolume_capacity admin_iso_path
             boot_from interfaceorder numa_nodes networks_bonding networks_bondinginterfaces
           = Inr cfg"
  shows "length (volumes (params cfg)) = 2
       \<and> vol_name (volumes (params cfg) ! 1) = ''iso''
       \<and> (boot_from = ''usb'' \<longrightarrow>
             device (volumes (params cfg) ! 1) = Some ''disk''
           \<and> bus (volumes (params cfg) ! 1) = Some ''usb''
           \<and> boot (params cfg) = [''hd'']
           \<and> bootmenu_timeout (params cfg) = Some 3000)
       \<and> (boot_from \<noteq> ''usb'' \<longrightarrow>
             device (volumes (params cfg) ! 1) = Some ''cdrom''
           \<and> bus (volumes (params cfg) ! 1) = Some ''ide''
           \<and> boot (params cfg) = [''hd'', ''cdrom'']
           \<and> bootmenu_timeout (params cfg) = Some 0)"
  using assms
  by (auto simp: create_admin_config_def bind_err_def Let_def split: sum.splits if_splits)

theorem admin_boot_mode_witness:
  "\<exists>cfg. create_admin_config 2 3072 75 ''/iso/fuel.iso'' ''usb'' [''admin'', ''public''] 0 False []
           = Inr cfg
       \<and> device (volumes (params cfg) ! 1) = Some ''disk''
       \<and> bus (volumes (params cfg) ! 1) = Some ''usb''
       \<and> bootmenu_timeout (params cfg) = Some 3000"
proof -
  obtain cfg where c: "create_admin_config 2 3072 75 ''/iso/fuel.iso'' ''usb''
      [''admin'', ''public''] 0 False [] = Inr cfg"
    by (simp add: create_admin_config_def bind_err_def calculate_numa_def Let_def)
  from admin_boot_mode[OF c] c show ?thesis by simp
qed

text \<open>
  The claim as stated asks for a zero timeout with \<open>usb\<close> and a non-zero one otherwise;
  the code gives 3000 with \<open>usb\<close> and 0 with \<open>cdrom\<close>.
\<close>

theorem admin_bootmenu_timeout_counterexample:
  "map_sum id (\<lambda>cfg. bootmenu_timeout (params cfg))
      (create_admin_config 2 3072 75 ''/iso/fuel.iso'' ''usb'' [''admin'', ''public''] 0 False [])
     = Inr (Some 3000)
   \<and> map_sum id (\<lambda>cfg. bootmenu_timeout (params cfg))
      (create_admin_config 2 3072 75 ''/iso/fuel.iso'' ''cdrom'' [''admin'', ''public''] 0 False [])
     = Inr (Some 0)"
  by (simp add: create_admin_config_def bind_err_def calculate_numa_def Let_def)

subsection \<open>The admin network's logical name\<close>

lemma slave_interfaces_distinct:
  "slave_interfaces_of lib slave_name interfaceorder networks_multiplenetworks
       networks_nodegroups networks_bonding networks_bondinginterfaces = Inr ifaces
   \<Longrightarrow> distinct (map label ifaces)"
  by (auto simp: slave_interfaces_of_def bind_err_def Let_def
        distinct_label_enumerate_interfaces distinct_label_bonding_interfaces
      split: if_splits sum.splits)

lemma create_netpools_entries:
  "(netname, iname) \<in> set (create_netpools interfaceorder)
    \<Longrightarrow> netname = (if iname = ''admin'' then ''fuelweb_admin'' else iname)
      \<and> iname \<in> set interfaceorder"
  using set_dict_of[of "map (\<lambda>iname. (if iname = ''admin'' then ''fuelweb_admin'' else iname, iname))
                  interfaceorder"]
  by (auto simp: create_netpools_dict_of)

lemma create_netpools_keys:
  "fst ` set (create_netpools interfaceorder)
     = (\<lambda>iname. if iname = ''admin'' then ''fuelweb_admin'' else iname) ` set interfaceorder"
  using keys_dict_of[of "map (\<lambda>iname. (if iname = ''admin'' then ''fuelweb_admin'' else iname, iname))
                  interfaceorder"]
  by (simp add: create_netpools_dict_of image_image)

lemma create_netpools_lookup:
  assumes "\<not> (''admin'' \<in> set interfaceorder \<and> ''fuelweb_admin'' \<in> set interfaceorder)"
    and "iname \<in> set interfaceorder"
  shows "map_of (create_netpools interfaceorder)
           (if iname = ''admin'' then ''fuelweb_admin'' else iname) = Some iname"
  unfolding create_netpools_dict_of
  by (rule map_of_dict_of_unique) (use assms in \<open>auto split: if_splits\<close>)

lemma bonding_interfaces_set:
  "set (bonding_interfaces bi) =
     (\<lambda>(l, d). \<lparr> label = l, l2_network_device = d, interface_model = ''e1000'' \<rparr>)
       ` set (bonding_ifaces bi)"
  by (simp add: bonding_interfaces_def)

lemma bonding_ifaces_sound:
  assumes "(l, d) \<in> set (bonding_ifaces bi)"
  shows "\<exists>labels. (d, labels) \<in> set (dict_of bi) \<and> l \<in> set labels"
proof -
  from assms set_dict_of have "(l, d) \<in> set (concat (map (\<lambda>(iname, labels).
      map (\<lambda>label. (label, iname)) labels) (dict_of bi)))"
    unfolding bonding_ifaces_def by blast
  then show ?thesis by auto
qed

lemma bonding_ifaces_complete:
  assumes "(d, labels) \<in> set (dict_of bi)" "l \<in> set labels"
  shows "\<exists>d'. (l, d') \<in> set (bonding_ifaces bi)"
proof -
  have "(l, d) \<in> set (concat (map (\<lambda>(iname, labels).
      map (\<lambda>label. (label, iname)) labels) (dict_of bi)))"
    using assms by force
  then have "l \<in> fst ` set (bonding_ifaces bi)"
    unfolding bonding_ifaces_def using keys_dict_of
    by (metis (no_types, lifting) image_eqI fst_conv set_map)
  then show ?thesis by auto
qed

lemma bonding_interfaces_devices:
  "\<forall>iface \<in> set (bonding_interfaces bi).
      \<exists>labels. (l2_network_device iface, labels) \<in> set (dict_of bi) \<and> label iface \<in> set labels"
  unfolding bonding_interfaces_set using bonding_ifaces_sound by fastforce

lemma bonding_interfaces_labels:
  "\<forall>(iname, labels) \<in> set (dict_of bi). \<forall>l \<in> set labels.
      \<exists>iface \<in> set (bonding_interfaces bi). label iface = l"
proof -
  have "\<exists>iface \<in> set (bonding_interfaces bi). label iface = l"
    if "(d, labels) \<in> set (dict_of bi)" "l \<in> set labels" for d labels l
  proof -
    from bonding_ifaces_complete[OF that] obtain d' where "(l, d') \<in> set (bonding_ifaces bi)"
      by blast
    then have "\<lparr> label = l, l2_network_device = d', interface_model = ''e1000'' \<rparr>
        \<in> set (bonding_interfaces bi)"
      unfolding bonding_interfaces_set by force
    then show ?thesis by force
  qed
  then show ?thesis by blast
qed

lemma sorted_label_bonding_interfaces: "sorted (map label (bonding_interfaces bi))"
proof -
  have "map label (bonding_interfaces bi) = map fst (sort_key fst (bonding_ifaces bi))"
    by (simp add: bonding_interfaces_def comp_def case_prod_beta)
  then show ?thesis by (simp add: sorted_sort_key)
qed

lemma slave_interfaces_of_branches:
  assumes "slave_interfaces_of lib slave_name interfaceorder networks_multiplenetworks
             networks_nodegroups networks_bonding networks_bondinginterfaces = Inr ifaces"
  shows "networks_multiplenetworks \<longrightarrow>
           (\<exists>n g. py_int lib (drop (length slave_name - 2) slave_name) = Inr n
                \<and> index networks_nodegroups (nat (1 - n mod 2)) = Inr g
                \<and> map l2_network_device ifaces = pools g)"
    and "\<not> networks_multiplenetworks \<and> networks_bonding \<longrightarrow>
           ifaces = bonding_interfaces networks_bondinginterfaces"
    and "\<not> networks_multiplenetworks \<and> \<not> networks_bonding \<longrightarrow>
           map l2_network_device ifaces = interfaceorder"
  using assms
  by (auto simp: slave_interfaces_of_def bind_err_def Let_def device_enumerate_interfaces
        split: if_splits sum.splits)

lemma bonding_example:
  "bonding_interfaces [(''admin'', [''eth1'', ''eth0'']), (''public'', [''eth2''])] =
     [\<lparr> label = ''eth0'', l2_network_device = ''admin'', interface_model = ''e1000'' \<rparr>,
      \<lparr> label = ''eth1'', l2_network_device = ''admin'', interface_model = ''e1000'' \<rparr>,
      \<lparr> label = ''eth2'', l2_network_device = ''public'', interface_model = ''e1000'' \<rparr>]"
  by code_simp


text \<open>
  Claim C10, as the code has it. In the \<open>network_config\<close> of every node built by
  \<open>create_admin_config\<close> or \<open>create_slave_config\<close>, each interface's label maps to the
  one-element network list holding \<open>fuelweb_admin\<close> when the interface's device is
  \<open>admin\<close> and the device name itself otherwise, and the labels are the only keys. The
  interfaces keep the device names unchanged: they are the given interface ordering in the
  plain branch, the pools of the selected node group in the node-group branch, and in the
  bonding branch each interface's device is a key of the bonding map whose list holds the
  interface's label, every label of the map having its interface. In \<open>create_netpools\<close>
  every entry maps the logical name \<open>fuelweb_admin\<close> to the device \<open>admin\<close> and every other
  logical name to the device of the same name, and the keys are exactly the logical names
  of the given devices; each device is found under its logical name provided the ordering
  does not hold both \<open>admin\<close> and \<open>fuelweb_admin\<close>, which share the key \<open>fuelweb_admin\<close>.
\<close>

theorem admin_device_exposed_as_fuelweb_admin:
  "(create_admin_config admin_vcpu admin_memory admin_sysvolume_capacity admin_iso_path
        boot_from interfaceorder numa_nodes networks_bonding networks_bondinginterfaces
      = Inr admin \<longrightarrow>
      (\<forall>iface \<in> set (interfaces (params admin)).
          map_of (network_config (params admin)) (label iface) =
            Some [if l2_network_device iface = ''admin'' then ''fuelweb_admin''
                  else l2_network_device iface])
      \<and> fst ` set (network_config (params admin)) = label ` set (interfaces (params admin))
      \<and> (\<not> networks_bonding \<longrightarrow>
            map l2_network_device (interfaces (params admin)) = interfaceorder)
      \<and> (networks_bonding \<longrightarrow>
            (\<forall>iface \<in> set (interfaces (params admin)).
               \<exists>labels. (l2_network_device iface, labels) \<in> set (dict_of networks_bondinginterfaces)
                  \<and> label iface \<in> set labels)
          \<and> (\<forall>(iname, labels) \<in> set (dict_of networks_bondinginterfaces). \<forall>l \<in> set labels.
               \<exists>iface \<in> set (interfaces (params admin)). label iface = l)))
   \<and> (create_slave_config lib slave_name slave_role slave_vcpu slave_memory slave_volume_capacity
        interfaceorder numa_nodes second_volume_capacity third_volume_capacity use_all_disks
        multipath networks_multiplenetworks networks_nodegroups networks_bonding
        networks_bondinginterfaces
      = Inr slave \<longrightarrow>
      (\<forall>iface \<in> set (interfaces (params slave)).
          map_of (network_config (params slave)) (label iface) =
            Some [if l2_network_device iface = ''admin'' then ''fuelweb_admin''
                  else l2_network_device iface])
      \<and> fst ` set (network_config (params slave)) = label ` set (interfaces (params slave))
      \<and> (\<not> networks_multiplenetworks \<and> \<not> networks_bonding \<longrightarrow>
            map l2_network_device (interfaces (params slave)) = interfaceorder)
      \<and> (\<not> networks_multiplenetworks \<and> networks_bonding \<longrightarrow>
            (\<forall>iface \<in> set (interfaces (params slave)).
               \<exists>labels. (l2_network_device iface, labels) \<in> set (dict_of networks_bondinginterfaces)
                  \<and> label iface \<in> set labels)
          \<and> (\<forall>(iname, labels) \<in> set (dict_of networks_bondinginterfaces). \<forall>l \<in> set labels.
               \<exists>iface \<in> set (interfaces (params slave)). label iface = l))
      \<and> (networks_multiplenetworks \<longrightarrow>
            (\<exists>n g. py_int lib (drop (length slave_name - 2) slave_name) = Inr n
                \<and> index networks_nodegroups (nat (1 - n mod 2)) = Inr g
                \<and> map l2_network_device (interfaces (params slave)) = pools g)))
   \<and> (\<forall>(netname, iname) \<in> set (create_netpools interfaceorder).
          netname = (if iname = ''admin'' then ''fuelweb_admin'' else iname))
   \<and> fst ` set (create_netpools interfaceorder)
        = (\<lambda>iname. if iname = ''admin'' then ''fuelweb_admin'' else iname) ` set interfaceorder
   \<and> (\<not> (''admin'' \<in> set interfaceorder \<and> ''fuelweb_admin'' \<in> set interfaceorder) \<longrightarrow>
        (\<forall>iname \<in> set interfaceorder.
           map_of (create_netpools interfaceorder)
             (if iname = ''admin'' then ''fuelweb_admin'' else iname) = Some iname))"
  (is "(?A \<longrightarrow> ?PA) \<and> (?S \<longrightarrow> ?PS) \<and> ?N1 \<and> ?N2 \<and> ?N3")
proof -
  have admin: ?PA if ?A
  proof -
    define ifaces where "ifaces = (if networks_bonding then bonding_interfaces networks_bondinginterfaces
             else enumerate_interfaces interfaceorder)"
    from that have i: "interfaces (params admin) = ifaces"
      and n: "network_config (params admin) = network_config_of ifaces"
      by (auto simp: create_admin_config_def bind_err_def Let_def ifaces_def
            split: sum.splits if_splits)
    have d: "distinct (map label ifaces)"
      by (simp add: ifaces_def distinct_label_enumerate_interfaces
            distinct_label_bonding_interfaces)
    show ?thesis
      unfolding i n
      using network_config_of_lookup[OF d] network_config_of_keys[of ifaces]
        bonding_interfaces_devices[of networks_bondinginterfaces]
        bonding_interfaces_labels[of networks_bondinginterfaces]
      by (simp add: ifaces_def device_enumerate_interfaces)
  qed
  have slave: ?PS if ?S
  proof -
    from that obtain ifaces where
      s: "slave_interfaces_of lib slave_name interfaceorder networks_multiplenetworks
            networks_nodegroups networks_bonding networks_bondinginterfaces = Inr ifaces"
      and i: "interfaces (params slave) = ifaces"
      and n: "network_config (params slave) = network_config_of ifaces"
      by (auto simp: create_slave_config_def bind_err_def Let_def split: sum.splits)
    have d: "distinct (map label ifaces)"
      using s by (rule slave_interfaces_distinct)
    have b: "ifaces = bonding_interfaces networks_bondinginterfaces"
      if "\<not> networks_multiplenetworks" "networks_bonding"
      using slave_interfaces_of_branches(2)[OF s] that by simp
    show ?thesis
      unfolding i n
      using network_config_of_lookup[OF d] network_config_of_keys[of ifaces]
        slave_interfaces_of_branches(1,3)[OF s] b
        bonding_interfaces_devices[of networks_bondinginterfaces]
        bonding_interfaces_labels[of networks_bondinginterfaces]
      by auto
  qed
  have np1: ?N1
    using create_netpools_entries[of _ _ interfaceorder] by fastforce
  have np3: ?N3
    using create_netpools_lookup[of interfaceorder] by blast
  from admin have a: "?A \<longrightarrow> ?PA" by (rule impI)
  from slave have s: "?S \<longrightarrow> ?PS" by (rule impI)
  show ?thesis
    by (intro conjI) (rule a, rule s, rule np1, rule create_netpools_keys, rule np3)
qed


theorem admin_device_exposed_as_fuelweb_admin_witness:
  "\<exists>admin slave bonded.
      create_admin_config 2 3072 75 ''/iso/fuel.iso'' ''cdrom'' [''admin'', ''public''] 0
        False [] = Inr admin
    \<and> map l2_network_device (interfaces (params admin)) = [''admin'', ''public'']
    \<and> map_of (network_config (params admin)) ''iface0'' = Some [''fuelweb_admin'']
    \<and> map_of (network_config (params admin)) ''iface1'' = Some [''public'']
    \<and> create_slave_config canonical_only ''slave-01'' ''fuel_slave'' 2 3072 50 [''admin'', ''public''] 0
        None None False 0 False [] False [] = Inr slave
    \<and> map l2_network_device (interfaces (params slave)) = [''admin'', ''public'']
    \<and> map_of (network_config (params slave)) ''iface0'' = Some [''fuelweb_admin'']
    \<and> map_of (network_config (params slave)) ''iface1'' = Some [''public'']
    \<and> map_of (create_netpools [''admin'', ''public'']) ''fuelweb_admin'' = Some ''admin''
    \<and> map_of (create_netpools [''admin'', ''public'']) ''public'' = Some ''public''
    \<and> create_admin_config 2 3072 75 ''/iso/fuel.iso'' ''cdrom'' [''admin'', ''public''] 0
        True [(''admin'', [''eth1'', ''eth0'']), (''public'', [''eth2''])] = Inr bonded
    \<and> map (\<lambda>iface. (label iface, l2_network_device iface)) (interfaces (params bonded))
        = [(''eth0'', ''admin''), (''eth1'', ''admin''), (''eth2'', ''public'')]
    \<and> map_of (network_config (params bonded)) ''eth0'' = Some [''fuelweb_admin'']
    \<and> map_of (network_config (params bonded)) ''eth1'' = Some [''fuelweb_admin'']
    \<and> map_of (network_config (params bonded)) ''eth2'' = Some [''public'']"
proof -
  have s: "str 0 = ''0''" "str 1 = ''1''"
    by (simp_all add: str_def digits.simps digit_char_def)
  have e: "enumerate_interfaces [''admin'', ''public''] =
      [\<lparr>label = ''iface0'', l2_network_device = ''admin'', interface_model = ''e1000''\<rparr>,
       \<lparr>label = ''iface1'', l2_network_device = ''public'', interface_model = ''e1000''\<rparr>]"
    by (simp add: enumerate_interfaces_def s)
  obtain admin where a: "create_admin_config 2 3072 75 ''/iso/fuel.iso'' ''cdrom''
      [''admin'', ''public''] 0 False [] = Inr admin"
    and ai: "interfaces (params admin) = enumerate_interfaces [''admin'', ''public'']"
    by (simp add: create_admin_config_def bind_err_def calculate_numa_def Let_def)
  obtain slave where b: "create_slave_config canonical_only ''slave-01'' ''fuel_slave'' 2 3072 50
      [''admin'', ''public''] 0 None None False 0 False [] False [] = Inr slave"
    and bi: "interfaces (params slave) = enumerate_interfaces [''admin'', ''public'']"
    by (simp add: create_slave_config_def slave_interfaces_of_def bind_err_def
          calculate_numa_def Let_def)
  obtain bonded where c: "create_admin_config 2 3072 75 ''/iso/fuel.iso'' ''cdrom''
      [''admin'', ''public''] 0 True [(''admin'', [''eth1'', ''eth0'']), (''public'', [''eth2''])]
      = Inr bonded"
    and ci: "interfaces (params bonded)
       = bonding_interfaces [(''admin'', [''eth1'', ''eth0'']), (''public'', [''eth2''])]"
    by (simp add: create_admin_config_def bind_err_def calculate_numa_def Let_def)
  have plain: "map l2_network_device (interfaces (params admin)) = [''admin'', ''public'']
    \<and> map_of (network_config (params admin)) ''iface0'' = Some [''fuelweb_admin'']
    \<and> map_of (network_config (params admin)) ''iface1'' = Some [''public'']
    \<and> map l2_network_device (interfaces (params slave)) = [''admin'', ''public'']
    \<and> map_of (network_config (params slave)) ''iface0'' = Some [''fuelweb_admin'']
    \<and> map_of (network_config (params slave)) ''iface1'' = Some [''public'']
    \<and> map_of (create_netpools [''admin'', ''public'']) ''fuelweb_admin'' = Some ''admin''
    \<and> map_of (create_netpools [''admin'', ''public'']) ''public'' = Some ''public''"
    using admin_device_exposed_as_fuelweb_admin[where admin = admin and slave = slave
        and interfaceorder = "[''admin'', ''public'']" and networks_bonding = False
        and networks_multiplenetworks = False and admin_vcpu = 2 and admin_memory = 3072
        and admin_sysvolume_capacity = 75 and admin_iso_path = "''/iso/fuel.iso''"
        and boot_from = "''cdrom''" and numa_nodes = 0 and networks_bondinginterfaces = "[]"
        and slave_name = "''slave-01''" and slave_role = "''fuel_slave''" and slave_vcpu = 2
        and slave_memory = 3072 and slave_volume_capacity = 50
        and second_volume_capacity = None and third_volume_capacity = None
        and use_all_disks = False and multipath = 0 and networks_nodegroups = "[]"]
      a b
    by (simp add: ai bi e)
  have bond: "map_of (network_config (params bonded)) ''eth0'' = Some [''fuelweb_admin'']
    \<and> map_of (network_config (params bonded)) ''eth1'' = Some [''fuelweb_admin'']
    \<and> map_of (network_config (params bonded)) ''eth2'' = Some [''public'']"
    using admin_device_exposed_as_fuelweb_admin[where admin = bonded
        and interfaceorder = "[''admin'', ''public'']" and networks_bonding = True
        and admin_vcpu = 2 and admin_memory = 3072
        and admin_sysvolume_capacity = 75 and admin_iso_path = "''/iso/fuel.iso''"
        and boot_from = "''cdrom''" and numa_nodes = 0
        and networks_bondinginterfaces
          = "[(''admin'', [''eth1'', ''eth0'']), (''public'', [''eth2''])]"]
      c
    by (simp add: ci bonding_example)
  show ?thesis
    using a b c plain bond
    by (intro exI[of _ admin] exI[of _ slave] exI[of _ bonded]) (simp add: ci bonding_example)
qed

text \<open>
  The claim as stated has the device \<open>admin\<close> exposed as \<open>fuelweb_admin\<close> for every
  ordering; in the ordering \<open>admin, fuelweb_admin\<close> the second device takes the key and
  \<open>admin\<close> is exposed under no name.
\<close>

theorem network_pools_key_clash_counterexample:
  "create_netpools [''admin'', ''fuelweb_admin''] = [(''fuelweb_admin'', ''fuelweb_admin'')]
   \<and> map_of (create_netpools [''admin'', ''fuelweb_admin'']) ''fuelweb_admin'' \<noteq> Some ''admin''"
  by (simp add: create_netpools_def)

subsection \<open>Address pools\<close>

lemma map_err_all_ok:
  "\<forall>x \<in> set xs. f x = Inr (g x) \<Longrightarrow> map_err f xs = Inr (map g xs)"
  by (induction xs) auto

lemma map_err_first_failure:
  "find (\<lambda>x. \<exists>e. f x = Inl e) xs = Some x \<Longrightarrow> f x = Inl e \<Longrightarrow> map_err f xs = Inl e"
  by (induction xs) (auto split: if_splits sum.splits)

lemma ip_network_example: "ip_network lib ''10.0.0.0/24'' = Inr (167772160, 24, 32)"
  by (simp add: ip_network_def canonical_ipv4_network_def split1_def octet_def decimal_def
        is_digit_def digits_val_def digit_val_def)

lemma py_int_example: "py_int lib ''25'' = Inr 25"
  by (simp add: py_int_def strip_def is_space_def is_digit_def digits_val_def digit_val_def)

lemma subnet_size_example: "first_subnet_size lib (167772160, 24, 32) 25 = Inr 128"
  by (simp add: first_subnet_size_def)

text \<open>The effect of one round of the loop on the pool it visits, for a partition of 128 addresses.\<close>

definition finish_pool :: "string \<Rightarrow> address_pool \<Rightarrow> address_pool" where
  "finish_pool k p =
     (let p1 = (if sublist ''private'' k then set_vlan p else p)
      in if sublist ''public'' k then set_floating 128 p1 else p1)"

lemma address_pool_step_public:
  assumes "map_of networks_pools ''public'' = Some (''10.0.0.0/24'' # ''25'' # rest)"
  shows "\<exists>d'. address_pool_step lib networks_pools k d = Inr d'
           \<and> (\<forall>j. map_of d' j = (if j = k then map_option (finish_pool k) (map_of d k)
                                   else map_of d j))"
proof -
  define d1 where "d1 = (if sublist ''private'' k then AList.map_entry k set_vlan d else d)"
  have m1: "map_of d1 j = (if j = k \<and> sublist ''private'' k then map_option set_vlan (map_of d k)
                           else map_of d j)" for j
    by (auto simp: d1_def map_of_map_entry split: option.splits)
  have step: "address_pool_step lib networks_pools k d =
      (if sublist ''public'' k then Inr (AList.map_entry k (set_floating 128) d1) else Inr d1)"
    using assms
    by (simp only: address_pool_step_def Let_def d1_def getitem_def index_def bind_err_def
          ip_network_example py_int_example subnet_size_example)
       (simp add: ip_network_example py_int_example subnet_size_example)
  show ?thesis
  proof (cases "sublist ''public'' k")
    case True
    have "map_of (AList.map_entry k (set_floating 128) d1) j =
        (if j = k then map_option (finish_pool k) (map_of d k) else map_of d j)" for j
      using True by (auto simp: map_of_map_entry m1 finish_pool_def split: option.splits)
    with True step show ?thesis by simp
  next
    case False
    have "map_of d1 j =
        (if j = k then map_option (finish_pool k) (map_of d k) else map_of d j)" for j
      using False by (cases "map_of d k") (auto simp: m1 finish_pool_def)
    with False step show ?thesis by simp
  qed
qed

lemma address_pool_loop_public:
  assumes "map_of networks_pools ''public'' = Some (''10.0.0.0/24'' # ''25'' # rest)"
    and "distinct ks"
  shows "\<exists>d'. address_pool_loop lib networks_pools ks d = Inr d'
           \<and> (\<forall>k. map_of d' k = (if k \<in> set ks then map_option (finish_pool k) (map_of d k)
                                   else map_of d k))"
  using assms(2)
proof (induction ks arbitrary: d)
  case Nil
  show ?case by simp
next
  case (Cons k ks)
  from Cons.prems have dk: "k \<notin> set ks" "distinct ks" by auto
  obtain d1 where d1: "address_pool_step lib networks_pools k d = Inr d1"
    "\<forall>j. map_of d1 j = (if j = k then map_option (finish_pool k) (map_of d k) else map_of d j)"
    using address_pool_step_public[OF assms(1)] by blast
  obtain d' where d': "address_pool_loop lib networks_pools ks d1 = Inr d'"
    "\<forall>j. map_of d' j = (if j \<in> set ks then map_option (finish_pool j) (map_of d1 j)
         else map_of d1 j)"
    using Cons.IH[OF dk(2)] by blast
  have "address_pool_loop lib networks_pools (k # ks) d = Inr d'"
    by (simp add: d1(1) bind_err_def d'(1))
  moreover have "map_of d' j = (if j \<in> set (k # ks) then map_option (finish_pool j) (map_of d j)
                                   else map_of d j)" for j
    using d'(2) d1(2) dk(1) by auto
  ultimately show ?case by blast
qed


lemma bind_err_simps:
  "bind_err (Inr x) f = f x" "bind_err (Inl e) f = Inl e"
  by (simp_all add: bind_err_def)

lemma pool_items_ok:
  assumes "\<forall>n \<in> set interfaceorder. map_of networks_pools n \<noteq> None"
  shows "map_err (\<lambda>iname. bind_err (getitem networks_pools iname) (\<lambda>subnets.
                                   Inr (iname, default_address_pool subnets))) interfaceorder
       = Inr (map (\<lambda>iname. (iname, default_address_pool (the (map_of networks_pools iname))))
                  interfaceorder)"
  using assms by (intro map_err_all_ok) (auto simp: getitem_def bind_err_def)

lemma pool_items_missing:
  "find (\<lambda>n. map_of networks_pools n = None) interfaceorder = Some n \<Longrightarrow>
     map_err (\<lambda>iname. bind_err (getitem networks_pools iname) (\<lambda>subnets.
                                   Inr (iname, default_address_pool subnets))) interfaceorder
       = Inl (KeyError n)"
  by (induction interfaceorder) (auto simp: getitem_def bind_err_def split: if_splits)

text \<open>
  Claim C2, as the code has it. Let the entry of \<open>public\<close> in \<open>networks_pools\<close> start with
  the subnet \<open>10.0.0.0/24\<close> and the prefix length \<open>25\<close> (a partition of \<open>S = 128\<close>
  addresses), and let every name of the interface ordering have an entry. Then
  \<open>create_address_pools\<close> succeeds, and the pool of every name that contains \<open>public\<close> has
  exactly two ranges: \<open>default = [2, 63]\<close>, that is \<open>[2, S/2 - 1]\<close>, and
  \<open>floating = [64, -2]\<close>, that is \<open>[S/2, -2]\<close>. The end of the floating range is stored as
  the offset \<open>-2\<close> from the end of the pool (as in the default range \<open>[2, -2]\<close> of the other
  pools), not as the number 126; the default range ends below the start of the floating one.
\<close>

theorem public_pool_ranges:
  assumes pub: "map_of networks_pools ''public'' = Some (''10.0.0.0/24'' # ''25'' # rest)"
    and all: "\<forall>n \<in> set interfaceorder. map_of networks_pools n \<noteq> None"
    and mem: "iname \<in> set interfaceorder"
    and isp: "sublist ''public'' iname"
  shows "\<exists>pools p. create_address_pools lib interfaceorder networks_pools = Inr pools
      \<and> map_of pools iname = Some p
      \<and> ip_ranges (pool_params p) = [(''default'', [2, 63]), (''floating'', [64, - 2])]"
proof -
  define items where "items =
    map (\<lambda>iname. (iname, default_address_pool (the (map_of networks_pools iname)))) interfaceorder"
  define p0 where "p0 = default_address_pool (the (map_of networks_pools iname))"
  have c: "create_address_pools lib interfaceorder networks_pools =
      address_pool_loop lib networks_pools (map fst (dict_of items)) (dict_of items)"
    by (simp add: create_address_pools_def pool_items_ok[OF all] bind_err_simps items_def Let_def)
  obtain pools where l: "address_pool_loop lib networks_pools (map fst (dict_of items)) (dict_of items)
       = Inr pools"
    and m: "\<forall>k. map_of pools k = (if k \<in> set (map fst (dict_of items))
                 then map_option (finish_pool k) (map_of (dict_of items) k)
                 else map_of (dict_of items) k)"
    using address_pool_loop_public[OF pub distinct_dict_of] by blast
  have k: "iname \<in> set (map fst (dict_of items))"
    unfolding keys_dict_of using mem by (force simp: items_def)
  have "map_of (dict_of items) iname = Some p0"
    by (rule map_of_dict_of_unique) (use mem in \<open>auto simp: items_def p0_def\<close>)
  with m k have "map_of pools iname = Some (finish_pool iname p0)"
    by simp
  moreover have "ip_ranges (pool_params (finish_pool iname p0))
       = [(''default'', [2, 63]), (''floating'', [64, - 2])]"
    using isp
    by (simp add: finish_pool_def p0_def default_address_pool_def set_floating_def set_vlan_def)
  ultimately show ?thesis
    using c l by auto
qed

theorem public_pool_ranges_witness:
  "\<exists>pools p. create_address_pools canonical_only [''admin'', ''public'']
        [(''admin'', [''10.109.0.0/16'', ''24'']), (''public'', [''10.0.0.0/24'', ''25''])]
      = Inr pools
      \<and> map_of pools ''public'' = Some p
      \<and> ip_ranges (pool_params p) = [(''default'', [2, 63]), (''floating'', [64, - 2])]"
  using public_pool_ranges[of
      "[(''admin'', [''10.109.0.0/16'', ''24'']), (''public'', [''10.0.0.0/24'', ''25''])]"
      "[]" "[''admin'', ''public'']" "''public''"]
  by simp

text \<open>
  The claim as stated gives the floating range as \<open>[64, 126]\<close>; the code stores
  \<open>[64, -2]\<close>.
\<close>

theorem floating_range_counterexample:
  "create_address_pools canonical_only [''public''] [(''public'', [''10.0.0.0/24'', ''25''])]
     = Inr [(''public'',
             \<lparr> net = ''10.0.0.0/24:25'',
               pool_params = \<lparr> ip_reserved = [(''gateway'', 1), (''l2_network_device'', 1)],
                               ip_ranges = [(''default'', [2, 63]), (''floating'', [64, - 2])],
                               vlan_start = None,
                               vlan_end = None \<rparr> \<rparr>)]"
  by (simp add: create_address_pools_def getitem_def bind_err_def dict_of_def Let_def
        address_pool_step_def index_def ip_network_example py_int_example subnet_size_example
        default_address_pool_def set_floating_def sublist_code prefix_code)

text \<open>
  Claim C9, as the code has it. When some name of the interface ordering has no entry in
  \<open>networks_pools\<close>, \<open>create_address_pools\<close> fails with the built-in \<open>KeyError\<close> of the
  dictionary lookup, carrying the first such name of the ordering; it is not a
  \<open>DevopsError\<close>, the error class of the module's own checks.
\<close>

theorem unresolved_network_raises_KeyError:
  assumes "iname \<in> set interfaceorder" "map_of networks_pools iname = None"
  shows "\<exists>n. find (\<lambda>n. map_of networks_pools n = None) interfaceorder = Some n
           \<and> create_address_pools lib interfaceorder networks_pools = Inl (KeyError n)
           \<and> \<not> is_DevopsError (create_address_pools lib interfaceorder networks_pools)"
proof -
  from assms obtain n where n: "find (\<lambda>n. map_of networks_pools n = None) interfaceorder = Some n"
    by (cases "find (\<lambda>n. map_of networks_pools n = None) interfaceorder")
       (auto simp: find_None_iff)
  have "create_address_pools lib interfaceorder networks_pools = Inl (KeyError n)"
    by (simp add: create_address_pools_def pool_items_missing[OF n] bind_err_simps)
  with n show ?thesis by simp
qed

theorem unresolved_network_raises_KeyError_witness:
  "create_address_pools canonical_only [''admin'', ''public'', ''storage'']
       [(''admin'', [''10.109.0.0/16'', ''24'']), (''storage'', [''10.109.0.0/16'', ''24''])]
     = Inl (KeyError ''public'')"
  using unresolved_network_raises_KeyError[of "''public''" "[''admin'', ''public'', ''storage'']"
      "[(''admin'', [''10.109.0.0/16'', ''24'']), (''storage'', [''10.109.0.0/16'', ''24''])]"]
  by simp

text \<open>
  The claim as stated names the module's configuration error; the lookup raises
  \<open>KeyError\<close>.
\<close>

theorem unresolved_network_counterexample:
  "create_address_pools canonical_only [''admin'', ''public'']
       [(''admin'', [''10.109.0.0/16'', ''24''])] = Inl (KeyError ''public'')
   \<and> \<not> is_DevopsError (create_address_pools canonical_only [''admin'', ''public'']
       [(''admin'', [''10.109.0.0/16'', ''24''])])"
  by (simp add: create_address_pools_def getitem_def bind_err_def)

subsection \<open>Keys and fields of the built values\<close>

lemma map_err_Inr_list_all2:
  "map_err f xs = Inr ys \<Longrightarrow> list_all2 (\<lambda>x y. f x = Inr y) xs ys"
  by (induction xs arbitrary: ys) (auto split: sum.splits)

lemma map_fst_map_entry: "map fst (AList.map_entry k f d) = map fst d"
  by (induction d) auto

lemma address_pool_step_keys:
  "address_pool_step lib networks_pools k d = Inr d' \<Longrightarrow> map fst d' = map fst d"
  by (auto simp: address_pool_step_def bind_err_def Let_def map_fst_map_entry
        split: if_splits sum.splits)

lemma address_pool_loop_keys:
  "address_pool_loop lib networks_pools ks d = Inr d' \<Longrightarrow> map fst d' = map fst d"
proof (induction ks arbitrary: d)
  case Nil
  then show ?case by simp
next
  case (Cons k ks)
  then show ?case
    by (auto simp: bind_err_def split: sum.splits dest!: address_pool_step_keys)
qed

lemma create_address_pools_keys:
  assumes "create_address_pools lib interfaceorder networks_pools = Inr apools"
  shows "fst ` set apools = set interfaceorder"
proof -
  from assms obtain items where
    i: "map_err (\<lambda>iname. bind_err (getitem networks_pools iname) (\<lambda>subnets.
                                   Inr (iname, default_address_pool subnets))) interfaceorder
        = Inr items"
    and l: "address_pool_loop lib networks_pools (map fst (dict_of items)) (dict_of items) = Inr apools"
    by (auto simp: create_address_pools_def bind_err_def[of "map_err _ _"] Let_def
          split: sum.splits)
  have "list_all2 (\<lambda>x y. fst y = x) interfaceorder items"
    using map_err_Inr_list_all2[OF i]
    by (rule list_all2_mono) (auto simp: bind_err_def split: sum.splits)
  then have "map fst items = interfaceorder"
    by (induction rule: list_all2_induct) auto
  then have "fst ` set items = set interfaceorder"
    by (metis set_map)
  with address_pool_loop_keys[OF l] keys_dict_of[of items] show ?thesis
    by (metis set_map)
qed

lemma create_l2_network_devices_keys:
  assumes "create_l2_network_devices interfaceorder networks_dhcp networks_forwarding = Inr devs"
  shows "fst ` set devs = set interfaceorder"
    and "\<forall>(k, dev) \<in> set devs. l2_address_pool dev = k"
proof -
  from assms obtain items where
    i: "map_err (\<lambda>iname. bind_err (getitem networks_dhcp iname) (\<lambda>d.
                                 bind_err (getitem networks_forwarding iname) (\<lambda>f.
                                   Inr (iname, \<lparr> l2_address_pool = iname, dhcp = d,
                                                  forward_mode = f \<rparr>)))) interfaceorder
        = Inr items"
    and d: "devs = dict_of items"
    by (auto simp: create_l2_network_devices_def bind_err_def[of "map_err _ _"]
          split: sum.splits)
  have a: "list_all2 (\<lambda>x y. fst y = x \<and> l2_address_pool (snd y) = x) interfaceorder items"
    using map_err_Inr_list_all2[OF i]
    by (rule list_all2_mono) (auto simp: bind_err_def split: sum.splits)
  then have "map fst items = interfaceorder"
    by (induction rule: list_all2_induct) auto
  then have "fst ` set items = set interfaceorder"
    by (metis set_map)
  with keys_dict_of[of items] show "fst ` set devs = set interfaceorder"
    by (simp add: d)
  from a have "\<forall>(k, dev) \<in> set items. l2_address_pool dev = k"
    by (induction rule: list_all2_induct) auto
  with set_dict_of[of items] show "\<forall>(k, dev) \<in> set devs. l2_address_pool dev = k"
    unfolding d by blast
qed

lemma set_keys: "set (keys d) = fst ` set d"
  by (simp add: keys_def keys_dict_of del: set_map)

lemma create_admin_config_fields:
  assumes "create_admin_config admin_vcpu admin_memory admin_sysvolume_capacity admin_iso_path
             boot_from interfaceorder numa_nodes networks_bonding networks_bondinginterfaces
           = Inr n"
  shows "node_name n = ''admin''" and "node_role n = ''fuel_master''"
    and "map vol_name (volumes (params n)) = [''system'', ''iso'']"
    and "interfaces (params n) =
           (if networks_bonding then bonding_interfaces networks_bondinginterfaces
            else enumerate_interfaces interfaceorder)"
  using assms
  by (auto simp: create_admin_config_def bind_err_def Let_def split: sum.splits if_splits)

lemma create_slave_config_fields:
  assumes "create_slave_config lib slave_name slave_role slave_vcpu slave_memory
        slave_volume_capacity interfaceorder numa_nodes second_volume_capacity
        third_volume_capacity use_all_disks multipath networks_multiplenetworks
        networks_nodegroups networks_bonding networks_bondinginterfaces = Inr n"
  shows "node_name n = slave_name" and "node_role n = slave_role"
    and "volumes (params n) = slave_volumes slave_volume_capacity second_volume_capacity
           third_volume_capacity use_all_disks multipath"
    and "slave_interfaces_of lib slave_name interfaceorder networks_multiplenetworks
           networks_nodegroups networks_bonding networks_bondinginterfaces
         = Inr (interfaces (params n))"
  using assms
  by (auto simp: create_slave_config_def bind_err_def Let_def split: sum.splits)

lemma slave_volumes_system_only:
  "\<not> use_all_disks \<Longrightarrow> \<not> truthy second_volume_capacity \<Longrightarrow> \<not> truthy third_volume_capacity
    \<Longrightarrow> map vol_name (slave_volumes slave_volume_capacity second_volume_capacity
           third_volume_capacity use_all_disks multipath) = [''system'']"
  by (simp add: slave_volumes_def)

section \<open>The assembler: \<open>create_devops_config\<close>\<close>

record driver_params =
  connection_string :: string
  storage_pool_name :: string
  stp :: bool
  hpet :: bool
  use_host_cpu :: bool
  enable_acpi :: bool
  enable_nwfilters :: bool

record driver =
  driver_name :: string
  driver_params :: driver_params

record nodes_group =
  group_driver :: driver
  group_name :: string
  network_pools :: "(string, string) dict"
  l2_network_devices :: "(string, l2_device) dict"
  nodes :: "node list"

text \<open>
  The value of \<open>config['template']['devops_settings']\<close>; the two enclosing dictionaries
  have that one key each.
\<close>

record devops_settings =
  settings_env_name :: string
  address_pools :: "(string, address_pool) dict"
  groups :: "nodes_group list"

text \<open>The keyword parameters of \<open>create_devops_config\<close>.\<close>

record devops_args =
  boot_from :: string
  env_name :: string
  admin_vcpu :: int
  admin_memory :: int
  admin_sysvolume_capacity :: int
  admin_iso_path :: string
  nodes_count :: int
  numa_nodes :: int
  slave_vcpu :: int
  slave_memory :: int
  slave_volume_capacity :: int
  second_volume_capacity :: "int option"
  third_volume_capacity :: "int option"
  use_all_disks :: bool
  multipath_count_arg :: int
  ironic_nodes_count :: int
  networks_bonding :: bool
  networks_bondinginterfaces :: "(string, string list) dict"
  networks_multiplenetworks :: bool
  networks_nodegroups :: "nodegroup list"
  networks_interfaceorder :: "string list"
  networks_pools :: "(string, string list) dict"
  networks_forwarding :: "(string, string) dict"
  networks_dhcp :: "(string, bool) dict"
  driver_enable_acpi :: bool
  driver_enable_nwfilers :: bool

text \<open>\<open>'{0:0>2}'.format(n)\<close>: the decimal number, filled with zeros on the left to width 2.\<close>

definition format_02 :: "int \<Rightarrow> string" where
  "format_02 n = replicate (2 - length (str n)) CHR ''0'' @ str n"

definition create_devops_config ::
  "library \<Rightarrow> devops_args \<Rightarrow> error + devops_settings" where
  "create_devops_config lib a =
     (let l2_interfaceorder =
            (if networks_bonding a then keys (networks_bondinginterfaces a)
             else networks_interfaceorder a)
      in bind_err (create_address_pools lib (networks_interfaceorder a) (networks_pools a))
           (\<lambda>address_pools.
         let netpools = create_netpools (networks_interfaceorder a)
         in bind_err (create_l2_network_devices l2_interfaceorder (networks_dhcp a)
                        (networks_forwarding a))
           (\<lambda>l2_network_devices.
         bind_err (create_admin_config (admin_vcpu a) (admin_memory a)
                     (admin_sysvolume_capacity a) (admin_iso_path a) (boot_from a)
                     l2_interfaceorder (numa_nodes a) (networks_bonding a)
                     (networks_bondinginterfaces a))
           (\<lambda>admin_config.
         bind_err (map_err (\<lambda>slave_n.
                      create_slave_config lib (''slave-'' @ format_02 slave_n) ''fuel_slave''
                        (slave_vcpu a) (slave_memory a) (slave_volume_capacity a)
                        l2_interfaceorder (numa_nodes a) (second_volume_capacity a)
                        (third_volume_capacity a) (use_all_disks a) (multipath_count_arg a)
                        (networks_multiplenetworks a) (networks_nodegroups a)
                        (networks_bonding a) (networks_bondinginterfaces a))
                    (py_range 1 (nodes_count a)))
           (\<lambda>slave_configs.
         bind_err (map_err (\<lambda>ironic_n.
                      create_slave_config lib (''ironic-slave-'' @ format_02 ironic_n)
                        ''ironic_slave'' (slave_vcpu a) (slave_memory a)
                        (slave_volume_capacity a) [''ironic''] (numa_nodes a) None None
                        False 0 False [] False [])
                    (py_range 1 (ironic_nodes_count a + 1)))
           (\<lambda>ironic_configs.
         Inr \<lparr> settings_env_name = env_name a,
               address_pools = address_pools,
               groups = [
                 \<lparr> group_driver =
                     \<lparr> driver_name = ''devops.driver.libvirt'',
                       driver_params =
                         \<lparr> connection_string = ''qemu:///system'',
                           storage_pool_name = ''default'',
                           stp = True,
                           hpet = False,
                           use_host_cpu = True,
                           enable_acpi = driver_enable_acpi a,
                           enable_nwfilters = driver_enable_nwfilers a \<rparr> \<rparr>,
                   group_name = ''default'',
                   network_pools = netpools,
                   l2_network_devices = l2_network_devices,
                   nodes = admin_config # slave_configs @ ironic_configs \<rparr>] \<rparr>))))))"

subsection \<open>Properties of the assembler\<close>

lemma py_range_1_3: "py_range 1 3 = [1, 2]"
  by (simp add: py_range_def upto.simps)

lemma py_range_1_2: "py_range 1 2 = [1]"
  by (simp add: py_range_def upto.simps)

lemma format_02_examples: "format_02 1 = ''01''" "format_02 2 = ''02''"
  by (simp_all add: format_02_def str_def digits.simps digit_char_def)

lemma create_devops_config_parts:
  assumes "create_devops_config lib a = Inr cfg"
  shows "\<exists>g admin slaves ironics.
      groups cfg = [g]
    \<and> create_address_pools lib (networks_interfaceorder a) (networks_pools a)
        = Inr (address_pools cfg)
    \<and> network_pools g = create_netpools (networks_interfaceorder a)
    \<and> create_l2_network_devices
          (if networks_bonding a then keys (networks_bondinginterfaces a)
           else networks_interfaceorder a)
          (networks_dhcp a) (networks_forwarding a) = Inr (l2_network_devices g)
    \<and> nodes g = admin # slaves @ ironics
    \<and> create_admin_config (admin_vcpu a) (admin_memory a)
          (admin_sysvolume_capacity a) (admin_iso_path a) (boot_from a)
          (if networks_bonding a then keys (networks_bondinginterfaces a)
           else networks_interfaceorder a)
          (numa_nodes a) (networks_bonding a) (networks_bondinginterfaces a) = Inr admin
    \<and> map_err (\<lambda>slave_n.
                      create_slave_config lib (''slave-'' @ format_02 slave_n) ''fuel_slave''
                        (slave_vcpu a) (slave_memory a) (slave_volume_capacity a)
                        (if networks_bonding a then keys (networks_bondinginterfaces a)
                         else networks_interfaceorder a)
                        (numa_nodes a) (second_volume_capacity a)
                        (third_volume_capacity a) (use_all_disks a) (multipath_count_arg a)
                        (networks_multiplenetworks a) (networks_nodegroups a)
                        (networks_bonding a) (networks_bondinginterfaces a))
                    (py_range 1 (nodes_count a)) = Inr slaves
    \<and> map_err (\<lambda>ironic_n.
                      create_slave_config lib (''ironic-slave-'' @ format_02 ironic_n)
                        ''ironic_slave'' (slave_vcpu a) (slave_memory a)
                        (slave_volume_capacity a) [''ironic''] (numa_nodes a) None None
                        False 0 False [] False [])
                    (py_range 1 (ironic_nodes_count a + 1)) = Inr ironics"
  using assms
  unfolding create_devops_config_def Let_def bind_err_def
  by (auto split: sum.splits)


text \<open>An environment of three nodes and one ironic node on three networks.\<close>

definition example_args :: devops_args where
  "example_args =
     \<lparr> boot_from = ''cdrom'', env_name = ''env'', admin_vcpu = 2, admin_memory = 3072,
       admin_sysvolume_capacity = 75, admin_iso_path = ''/iso/fuel.iso'', nodes_count = 3,
       numa_nodes = 0, slave_vcpu = 2, slave_memory = 3072, slave_volume_capacity = 50,
       second_volume_capacity = None, third_volume_capacity = None, use_all_disks = False,
       multipath_count_arg = 0, ironic_nodes_count = 1, networks_bonding = False,
       networks_bondinginterfaces =
         [(''admin'', [''eth0'', ''eth1'']), (''public'', [''eth2'', ''eth3''])],
       networks_multiplenetworks = False, networks_nodegroups = [],
       networks_interfaceorder = [''admin'', ''public'', ''management''],
       networks_pools = [(''admin'', [''10.109.0.0/16'', ''24'']),
                         (''public'', [''10.0.0.0/24'', ''25'']),
                         (''management'', [''10.109.0.0/16'', ''24''])],
       networks_forwarding = [(''admin'', ''nat''), (''public'', ''nat''),
                              (''management'', ''route'')],
       networks_dhcp = [(''admin'', False), (''public'', False), (''management'', False)],
       driver_enable_acpi = False, driver_enable_nwfilers = False \<rparr>"

lemma example_strs: "str 0 = ''0''" "str 1 = ''1''" "str 2 = ''2''"
  by (simp_all add: str_def digits.simps digit_char_def)

lemma example_keys:
  "keys [(''admin'', [''eth0'', ''eth1'']), (''public'', [''eth2'', ''eth3''])]
      = [''admin'', ''public'']"
  by (simp add: keys_def dict_of_def)

lemma example_pools:
  "create_address_pools canonical_only [''admin'', ''public'', ''management'']
         [(''admin'', [''10.109.0.0/16'', ''24'']),
          (''public'', [''10.0.0.0/24'', ''25'']),
          (''management'', [''10.109.0.0/16'', ''24''])] =
   Inr [(''admin'', default_address_pool [''10.109.0.0/16'', ''24'']),
        (''public'', set_floating 128 (default_address_pool [''10.0.0.0/24'', ''25''])),
        (''management'', default_address_pool [''10.109.0.0/16'', ''24''])]"
  by (simp add: create_address_pools_def getitem_def bind_err_def dict_of_def Let_def
        address_pool_step_def index_def ip_network_example py_int_example subnet_size_example
        sublist_code prefix_code)

lemma update_fresh: "k \<notin> fst ` set d \<Longrightarrow> AList.update k v d = d @ [(k, v)]"
  by (induction d) auto

lemma fold_update_distinct:
  "distinct (map fst (d @ kvs)) \<Longrightarrow> fold (\<lambda>(k, v) d. AList.update k v d) kvs d = d @ kvs"
proof (induction kvs arbitrary: d)
  case Nil
  show ?case by simp
next
  case (Cons kv kvs)
  obtain k v where kv: "kv = (k, v)" by (cases kv)
  from Cons.prems have f: "k \<notin> fst ` set d" and d: "distinct (map fst ((d @ [(k, v)]) @ kvs))"
    by (auto simp: kv)
  show ?case
    using Cons.IH[OF d] by (simp add: kv update_fresh[OF f])
qed

lemma dict_of_distinct: "distinct (map fst kvs) \<Longrightarrow> dict_of kvs = kvs"
  using fold_update_distinct[of "[]" kvs] by (simp add: dict_of_def)

lemma distinct_keys: "distinct (keys d)"
  by (simp add: keys_def distinct_dict_of)

lemma create_l2_network_devices_order:
  assumes "create_l2_network_devices order dhcps forwards = Inr devs" "distinct order"
  shows "map fst devs = order"
proof -
  from assms(1) obtain items where
    i: "map_err (\<lambda>iname. bind_err (getitem dhcps iname) (\<lambda>d.
                                 bind_err (getitem forwards iname) (\<lambda>f.
                                   Inr (iname, \<lparr> l2_address_pool = iname, dhcp = d,
                                                  forward_mode = f \<rparr>)))) order
        = Inr items"
    and d: "devs = dict_of items"
    by (auto simp: create_l2_network_devices_def bind_err_def[of "map_err _ _"]
          split: sum.splits)
  have "list_all2 (\<lambda>x y. fst y = x) order items"
    using map_err_Inr_list_all2[OF i]
    by (rule list_all2_mono) (auto simp: bind_err_def split: sum.splits)
  then have "map fst items = order"
    by (induction rule: list_all2_induct) auto
  with assms(2) show ?thesis
    by (simp add: d dict_of_distinct)
qed

lemma example_bonding_succeeds:
  "\<exists>cfg. create_devops_config canonical_only (example_args\<lparr> networks_bonding := True \<rparr>) = Inr cfg"
  by (simp add: create_devops_config_def example_args_def example_keys example_pools
        bind_err_simps create_l2_network_devices_def getitem_def dict_of_def
        create_admin_config_def create_slave_config_def slave_interfaces_of_def
        calculate_numa_def py_range_1_3 py_range_1_2 Let_def)

lemma example_succeeds:
  "\<exists>cfg. create_devops_config canonical_only example_args = Inr cfg"
  by (simp add: create_devops_config_def example_args_def example_pools
        bind_err_simps create_l2_network_devices_def getitem_def dict_of_def
        create_admin_config_def create_slave_config_def slave_interfaces_of_def
        calculate_numa_def py_range_1_3 py_range_1_2 Let_def)

lemma map_err_member:
  "map_err f xs = Inr ys \<Longrightarrow> y \<in> set ys \<Longrightarrow> \<exists>x \<in> set xs. f x = Inr y"
  by (induction xs arbitrary: ys) (auto split: sum.splits)

text \<open>
  Claim C6, as the code has it. When bonding is requested and \<open>create_devops_config\<close>
  succeeds, the L2 network devices are built from the keys of the bonding map, in their
  order, each device naming the address pool of its own key, while the address pools and
  the group's network pools are built from the caller-supplied \<open>networks_interfaceorder\<close>,
  not from the bonding keys. The interfaces of the admin node and, outside the node-group
  branch, of the slave nodes follow no ordering either: they are built from the bonding map
  itself, one interface for each label of the map in the sorted order of the labels, bound
  to a key of the map whose list holds the label.
\<close>

theorem bonding_interface_ordering:
  assumes "create_devops_config lib a = Inr cfg" and "networks_bonding a"
  shows "\<exists>g. groups cfg = [g]
     \<and> map fst (l2_network_devices g) = keys (networks_bondinginterfaces a)
     \<and> (\<forall>(k, dev) \<in> set (l2_network_devices g). l2_address_pool dev = k)
     \<and> fst ` set (address_pools cfg) = set (networks_interfaceorder a)
     \<and> network_pools g = create_netpools (networks_interfaceorder a)
     \<and> (\<forall>n \<in> set (nodes g).
           node_role n = ''fuel_master''
             \<or> node_role n = ''fuel_slave'' \<and> \<not> networks_multiplenetworks a \<longrightarrow>
           sorted (map label (interfaces (params n)))
         \<and> distinct (map label (interfaces (params n)))
         \<and> (\<forall>iface \<in> set (interfaces (params n)).
               \<exists>labels. (l2_network_device iface, labels)
                            \<in> set (dict_of (networks_bondinginterfaces a))
                  \<and> label iface \<in> set labels)
         \<and> (\<forall>(iname, labels) \<in> set (dict_of (networks_bondinginterfaces a)).
               \<forall>l \<in> set labels. \<exists>iface \<in> set (interfaces (params n)). label iface = l))"
proof -
  let ?bi = "networks_bondinginterfaces a"
  let ?slave = "\<lambda>slave_n. create_slave_config lib (''slave-'' @ format_02 slave_n) ''fuel_slave''
                        (slave_vcpu a) (slave_memory a) (slave_volume_capacity a)
                        (keys ?bi) (numa_nodes a) (second_volume_capacity a)
                        (third_volume_capacity a) (use_all_disks a) (multipath_count_arg a)
                        (networks_multiplenetworks a) (networks_nodegroups a)
                        (networks_bonding a) ?bi"
  let ?ironic = "\<lambda>ironic_n. create_slave_config lib (''ironic-slave-'' @ format_02 ironic_n)
                        ''ironic_slave'' (slave_vcpu a) (slave_memory a)
                        (slave_volume_capacity a) [''ironic''] (numa_nodes a) None None
                        False 0 False [] False []"
  from create_devops_config_parts[OF assms(1)] assms(2)
  obtain g admin slaves ironics where g: "groups cfg = [g]"
    and p: "create_address_pools lib (networks_interfaceorder a) (networks_pools a)
        = Inr (address_pools cfg)"
    and n: "network_pools g = create_netpools (networks_interfaceorder a)"
    and l: "create_l2_network_devices (keys ?bi)
          (networks_dhcp a) (networks_forwarding a) = Inr (l2_network_devices g)"
    and ns: "nodes g = admin # slaves @ ironics"
    and ad: "create_admin_config (admin_vcpu a) (admin_memory a)
          (admin_sysvolume_capacity a) (admin_iso_path a) (boot_from a) (keys ?bi)
          (numa_nodes a) (networks_bonding a) ?bi = Inr admin"
    and sl: "map_err ?slave (py_range 1 (nodes_count a)) = Inr slaves"
    and ir: "map_err ?ironic (py_range 1 (ironic_nodes_count a + 1)) = Inr ironics"
    by auto
  have bonded: "interfaces (params n) = bonding_interfaces ?bi"
    if "n \<in> set (nodes g)"
      "node_role n = ''fuel_master'' \<or> node_role n = ''fuel_slave'' \<and> \<not> networks_multiplenetworks a"
    for n
  proof -
    from that(1) ns consider "n = admin" | "n \<in> set slaves" | "n \<in> set ironics"
      by auto
    then show ?thesis
    proof cases
      case 1
      then show ?thesis
        using create_admin_config_fields(4)[OF ad] assms(2) by simp
    next
      case 2
      from map_err_member[OF sl 2] obtain x where x: "?slave x = Inr n" by blast
      from create_slave_config_fields(2)[OF x] that(2)
      have "\<not> networks_multiplenetworks a" by auto
      with slave_interfaces_of_branches(2)[OF create_slave_config_fields(4)[OF x]] assms(2)
      show ?thesis by simp
    next
      case 3
      from map_err_member[OF ir 3] obtain x where x: "?ironic x = Inr n" by blast
      from create_slave_config_fields(2)[OF x] that(2)
      show ?thesis by simp
    qed
  qed
  have nodes: "\<forall>n \<in> set (nodes g).
           node_role n = ''fuel_master''
             \<or> node_role n = ''fuel_slave'' \<and> \<not> networks_multiplenetworks a \<longrightarrow>
           sorted (map label (interfaces (params n)))
         \<and> distinct (map label (interfaces (params n)))
         \<and> (\<forall>iface \<in> set (interfaces (params n)).
               \<exists>labels. (l2_network_device iface, labels) \<in> set (dict_of ?bi)
                  \<and> label iface \<in> set labels)
         \<and> (\<forall>(iname, labels) \<in> set (dict_of ?bi).
               \<forall>l \<in> set labels. \<exists>iface \<in> set (interfaces (params n)). label iface = l)"
    using bonded sorted_label_bonding_interfaces[of ?bi]
      distinct_label_bonding_interfaces[of ?bi]
      bonding_interfaces_devices[of ?bi] bonding_interfaces_labels[of ?bi]
    by simp
  show ?thesis
    using g n create_address_pools_keys[OF p] create_l2_network_devices_keys(2)[OF l]
      create_l2_network_devices_order[OF l distinct_keys] nodes
    by simp
qed

lemma example_bonding_interfaces:
  "bonding_interfaces [(''admin'', [''eth0'', ''eth1'']), (''public'', [''eth2'', ''eth3''])] =
     [\<lparr> label = ''eth0'', l2_network_device = ''admin'', interface_model = ''e1000'' \<rparr>,
      \<lparr> label = ''eth1'', l2_network_device = ''admin'', interface_model = ''e1000'' \<rparr>,
      \<lparr> label = ''eth2'', l2_network_device = ''public'', interface_model = ''e1000'' \<rparr>,
      \<lparr> label = ''eth3'', l2_network_device = ''public'', interface_model = ''e1000'' \<rparr>]"
  by code_simp

theorem bonding_interface_ordering_witness:
  "\<exists>cfg g. create_devops_config canonical_only (example_args\<lparr> networks_bonding := True \<rparr>) = Inr cfg
     \<and> groups cfg = [g]
     \<and> map fst (l2_network_devices g) = [''admin'', ''public'']
     \<and> fst ` set (address_pools cfg) = {''admin'', ''public'', ''management''}
     \<and> map (\<lambda>iface. (label iface, l2_network_device iface)) (interfaces (params (hd (nodes g))))
         = [(''eth0'', ''admin''), (''eth1'', ''admin''), (''eth2'', ''public''),
            (''eth3'', ''public'')]
     \<and> sorted (map label (interfaces (params (hd (nodes g)))))"
proof -
  obtain cfg where c: "create_devops_config canonical_only (example_args\<lparr> networks_bonding := True \<rparr>) = Inr cfg"
    using example_bonding_succeeds by blast
  from create_devops_config_parts[OF c] obtain g0 admin rest where
    p: "groups cfg = [g0]" "nodes g0 = admin # rest"
      "create_admin_config (admin_vcpu (example_args\<lparr> networks_bonding := True \<rparr>))
         (admin_memory (example_args\<lparr> networks_bonding := True \<rparr>))
         (admin_sysvolume_capacity (example_args\<lparr> networks_bonding := True \<rparr>))
         (admin_iso_path (example_args\<lparr> networks_bonding := True \<rparr>))
         (boot_from (example_args\<lparr> networks_bonding := True \<rparr>))
         (if networks_bonding (example_args\<lparr> networks_bonding := True \<rparr>)
          then keys (networks_bondinginterfaces (example_args\<lparr> networks_bonding := True \<rparr>))
          else networks_interfaceorder (example_args\<lparr> networks_bonding := True \<rparr>))
         (numa_nodes (example_args\<lparr> networks_bonding := True \<rparr>))
         (networks_bonding (example_args\<lparr> networks_bonding := True \<rparr>))
         (networks_bondinginterfaces (example_args\<lparr> networks_bonding := True \<rparr>)) = Inr admin"
    by blast
  have i: "interfaces (params admin) = bonding_interfaces
      [(''admin'', [''eth0'', ''eth1'']), (''public'', [''eth2'', ''eth3''])]"
    using create_admin_config_fields(4)[OF p(3)] by (simp add: example_args_def)
  have r: "node_role admin = ''fuel_master''"
    using create_admin_config_fields(2)[OF p(3)] .
  from bonding_interface_ordering[OF c] p r obtain g where
    g: "groups cfg = [g]" "g = g0"
      "map fst (l2_network_devices g) = keys (networks_bondinginterfaces
          (example_args\<lparr> networks_bonding := True \<rparr>))"
      "fst ` set (address_pools cfg) = set (networks_interfaceorder
          (example_args\<lparr> networks_bonding := True \<rparr>))"
      "sorted (map label (interfaces (params admin)))"
    by auto
  show ?thesis
    using c g p(2) i
    by (intro exI[of _ cfg] exI[of _ g])
       (auto simp: example_args_def example_keys example_bonding_interfaces)
qed

text \<open>
  The claim as stated has the address pools follow the bonding keys; with the bonding map
  on \<open>admin\<close> and \<open>public\<close> and the ordering \<open>admin, public, management\<close>, the address
  pools are those of the ordering and the L2 devices those of the bonding keys.
\<close>

theorem bonding_address_pools_counterexample:
  "map_sum id (\<lambda>cfg. (map fst (address_pools cfg),
                        map (\<lambda>g. map fst (l2_network_devices g)) (groups cfg)))
     (create_devops_config canonical_only (example_args\<lparr> networks_bonding := True \<rparr>))
   = Inr ([''admin'', ''public'', ''management''], [[''admin'', ''public'']])"
  by (simp add: create_devops_config_def example_args_def example_keys example_pools
        bind_err_simps create_l2_network_devices_def getitem_def dict_of_def
        create_admin_config_def create_slave_config_def slave_interfaces_of_def
        calculate_numa_def py_range_1_3 py_range_1_2 Let_def)

text \<open>
  Claim C7, as the code has it. When \<open>create_devops_config\<close> succeeds with
  \<open>nodes_count = 3\<close>, \<open>ironic_nodes_count = 1\<close>, \<open>use_all_disks\<close> false and no second or
  third volume capacity given (\<open>None\<close> or 0), it produces one group with exactly four nodes
  in order: the admin node, the slaves \<open>slave-01\<close> and \<open>slave-02\<close> and the ironic node
  \<open>ironic-slave-01\<close>. The slaves and the ironic node have the system volume and no other;
  the admin node has the system volume, followed by its iso volume.
\<close>

theorem assemble_three_nodes_one_ironic:
  assumes "create_devops_config lib a = Inr cfg"
    and "nodes_count a = 3" and "ironic_nodes_count a = 1" and "\<not> use_all_disks a"
    and "\<not> truthy (second_volume_capacity a)" and "\<not> truthy (third_volume_capacity a)"
  shows "\<exists>g. groups cfg = [g]
      \<and> map node_name (nodes g) = [''admin'', ''slave-01'', ''slave-02'', ''ironic-slave-01'']
      \<and> map node_role (nodes g)
           = [''fuel_master'', ''fuel_slave'', ''fuel_slave'', ''ironic_slave'']
      \<and> map (\<lambda>n. map vol_name (volumes (params n))) (nodes g)
           = [[''system'', ''iso''], [''system''], [''system''], [''system'']]"
proof -
  let ?order = "if networks_bonding a then keys (networks_bondinginterfaces a)
                else networks_interfaceorder a"
  let ?slave = "\<lambda>slave_n. create_slave_config lib (''slave-'' @ format_02 slave_n) ''fuel_slave''
                        (slave_vcpu a) (slave_memory a) (slave_volume_capacity a)
                        ?order (numa_nodes a) (second_volume_capacity a)
                        (third_volume_capacity a) (use_all_disks a) (multipath_count_arg a)
                        (networks_multiplenetworks a) (networks_nodegroups a)
                        (networks_bonding a) (networks_bondinginterfaces a)"
  let ?ironic = "\<lambda>ironic_n. create_slave_config lib (''ironic-slave-'' @ format_02 ironic_n)
                        ''ironic_slave'' (slave_vcpu a) (slave_memory a)
                        (slave_volume_capacity a) [''ironic''] (numa_nodes a) None None
                        False 0 False [] False []"
  from create_devops_config_parts[OF assms(1)] assms(2,3)
  obtain g admin slaves ironics where g: "groups cfg = [g]"
    and n: "nodes g = admin # slaves @ ironics"
    and a: "create_admin_config (admin_vcpu a) (admin_memory a)
          (admin_sysvolume_capacity a) (admin_iso_path a) (boot_from a) ?order
          (numa_nodes a) (networks_bonding a) (networks_bondinginterfaces a) = Inr admin"
    and s: "map_err ?slave (py_range 1 3) = Inr slaves"
    and i: "map_err ?ironic (py_range 1 (1 + 1)) = Inr ironics"
    by auto
  from s obtain s1 s2 where s12: "slaves = [s1, s2]" "?slave 1 = Inr s1" "?slave 2 = Inr s2"
    by (auto simp: py_range_1_3 split: sum.splits)
  from i obtain i1 where i1: "ironics = [i1]" "?ironic 1 = Inr i1"
    by (auto simp: py_range_1_2 split: sum.splits)
  have sv: "map vol_name (slave_volumes (slave_volume_capacity a) (second_volume_capacity a)
              (third_volume_capacity a) (use_all_disks a) (multipath_count_arg a)) = [''system'']"
    using assms(4,5,6) by (rule slave_volumes_system_only)
  have iv: "map vol_name (slave_volumes (slave_volume_capacity a) None None False 0) = [''system'']"
    by (rule slave_volumes_system_only) (simp_all add: truthy_def)
  show ?thesis
    using g n s12(1) i1(1)
      create_admin_config_fields(1,2,3)[OF a]
      create_slave_config_fields(1,2,3)[OF s12(2)]
      create_slave_config_fields(1,2,3)[OF s12(3)]
      create_slave_config_fields(1,2,3)[OF i1(2)] sv iv
    by (simp add: format_02_examples)
qed

theorem assemble_three_nodes_one_ironic_witness:
  "\<exists>cfg g. create_devops_config canonical_only example_args = Inr cfg
      \<and> groups cfg = [g]
      \<and> map node_name (nodes g) = [''admin'', ''slave-01'', ''slave-02'', ''ironic-slave-01'']
      \<and> map node_role (nodes g)
           = [''fuel_master'', ''fuel_slave'', ''fuel_slave'', ''ironic_slave'']
      \<and> map (\<lambda>n. map vol_name (volumes (params n))) (nodes g)
           = [[''system'', ''iso''], [''system''], [''system''], [''system'']]"
proof -
  obtain cfg where c: "create_devops_config canonical_only example_args = Inr cfg"
    using example_succeeds by blast
  have "nodes_count example_args = 3" "ironic_nodes_count example_args = 1"
    "\<not> use_all_disks example_args" "\<not> truthy (second_volume_capacity example_args)"
    "\<not> truthy (third_volume_capacity example_args)"
    by (simp_all add: example_args_def truthy_def)
  from assemble_three_nodes_one_ironic[OF c this] c show ?thesis
    by auto
qed

text \<open>
  The claim as stated leaves the volume capacities open; with a second volume capacity of
  50 and \<open>use_all_disks\<close> false each slave has a \<open>cinder\<close> volume besides the system one.
\<close>

theorem extra_volume_counterexample:
  "map_sum id (\<lambda>cfg. map (\<lambda>g. map (\<lambda>n. (node_name n, map vol_name (volumes (params n))))
                                     (nodes g)) (groups cfg))
     (create_devops_config canonical_only (example_args\<lparr> second_volume_capacity := Some 50 \<rparr>))
   = Inr [[(''admin'', [''system'', ''iso'']),
           (''slave-01'', [''system'', ''cinder'']),
           (''slave-02'', [''system'', ''cinder'']),
           (''ironic-slave-01'', [''system''])]]"
  by (simp add: create_devops_config_def example_args_def example_pools
        bind_err_simps create_l2_network_devices_def getitem_def dict_of_def
        create_admin_config_def create_slave_config_def slave_interfaces_of_def
        calculate_numa_def py_range_1_3 py_range_1_2 Let_def format_02_examples
        slave_volumes_def truthy_def)

section \<open>The document loader: \<open>yaml_template_load\<close>\<close>

text \<open>
  The YAML parser is PyYAML's and is a parameter here: \<open>compose\<close> turns a text into its
  node tree (\<open>None\<close> for an empty stream) or raises \<open>YAMLError\<close>. A node is a plain
  scalar, a sequence, a mapping, or a scalar tagged \<open>!include\<close> or \<open>!os_env\<close> with its
  \<open>node.value\<close>; a tree has no aliases, and mappings are read without merge keys. The
  value PyYAML's own constructors give a plain scalar (a string, a number, a truth value,
  \<open>None\<close>) is the parameter \<open>scalar\<close>: equal values are equal keys of a mapping.
\<close>

datatype yaml_node =
    ScalarNode string
  | SequenceNode "yaml_node list"
  | MappingNode "(yaml_node \<times> yaml_node) list"
  | IncludeNode string
  | OsEnvNode string

datatype yaml_value =
    PyNone
  | Scalar string
  | Sequence "yaml_value list"
  | OrderedDict "(yaml_value \<times> yaml_value) list"

text \<open>
  What the loader reads: the parser and the scalar constructor, the files by path and the
  process environment.
\<close>

record host =
  compose :: "string \<Rightarrow> error + yaml_node option"
  scalar :: "string \<Rightarrow> yaml_value"
  files :: "(string, string) dict"
  environ :: "(string, string) dict"

text \<open>\<open>os.path.dirname\<close> and \<open>os.path.join\<close> (two arguments) on POSIX paths.\<close>

definition dirname :: "string \<Rightarrow> string" where
  "dirname p =
     (let head = rev (dropWhile (\<lambda>c. c \<noteq> CHR ''/'') (rev p))
      in if head \<noteq> [] \<and> \<not> list_all (\<lambda>c. c = CHR ''/'') head
         then rev (dropWhile (\<lambda>c. c = CHR ''/'') (rev head))
         else head)"

definition path_join :: "string \<Rightarrow> string \<Rightarrow> string" where
  "path_join a b =
     (if b \<noteq> [] \<and> hd b = CHR ''/'' then b
      else if a = [] \<or> last a = CHR ''/'' then a @ b
      else a @ ''/'' @ b)"

text \<open>\<open>loader.name\<close> of a loader reading a string rather than a file.\<close>

definition string_stream_name :: string where
  "string_stream_name = ''<unicode string>''"

definition include_missing_message :: "string \<Rightarrow> string \<Rightarrow> string" where
  "include_missing_message name file_name =
     ''Cannot load the environment template '' @ name @ '' : include file '' @ file_name
       @ '' doesn'' @ [CHR 0x27] @ ''t exist.''"

definition env_required_message :: "string \<Rightarrow> string" where
  "env_required_message name =
     ''Environment variable is required after !os_env in '' @ name"

definition env_unset_message :: "string \<Rightarrow> string \<Rightarrow> string" where
  "env_unset_message var name =
     ''Environment variable '' @ var @ '' is not set from shell environment!''
       @ '' No default value provided in file '' @ name"

definition template_missing_message :: "string \<Rightarrow> string" where
  "template_missing_message config_file =
     ''Cannot load the environment template '' @ config_file @ '' : file doesn''
       @ [CHR 0x27] @ ''t exist.''"

text \<open>
  A computation of the loader gives \<open>None\<close> when it does not return, and otherwise its
  error or value. Children are constructed from left to right: the first one that raises
  or does not return decides.
\<close>

fun collect :: "(error + 'a) option list \<Rightarrow> (error + 'a list) option" where
  "collect [] = Some (Inr [])"
| "collect (None # rs) = None"
| "collect (Some (Inl e) # rs) = Some (Inl e)"
| "collect (Some (Inr v) # rs) =
     (case collect rs of
        None \<Rightarrow> None
      | Some (Inl e) \<Rightarrow> Some (Inl e)
      | Some (Inr vs) \<Rightarrow> Some (Inr (v # vs)))"

text \<open>The key and value results of a mapping's entries, taken two by two.\<close>

fun pairs :: "'a list \<Rightarrow> ('a \<times> 'a) list" where
  "pairs (k # v # rest) = (k, v) # pairs rest"
| "pairs rest = []"

text \<open>Lists and dictionaries cannot be dictionary keys.\<close>

fun hashable :: "yaml_value \<Rightarrow> bool" where
  "hashable (Sequence vs) = False"
| "hashable (OrderedDict kvs) = False"
| "hashable v = True"

text \<open>
  \<open>os.environ.get(env_variable, default_val)\<close> for the value \<open>NAME\<close> or \<open>NAME,default\<close>
  of an \<open>!os_env\<close> node.
\<close>

definition env_value :: "host \<Rightarrow> string \<Rightarrow> string option" where
  "env_value h node_value =
     (let parts = split1 CHR '','' node_value;
          env_variable = strip (hd parts);
          default_val = (if 1 < length parts then Some (strip (parts ! 1)) else None)
      in case map_of (environ h) env_variable of
           Some v \<Rightarrow> Some v
         | None \<Rightarrow> default_val)"

text \<open>
  PyYAML constructs a document in rounds. \<open>construct_object\<close> builds a scalar, a directive
  and a mapping (through \<open>construct_mapping\<close> and \<open>construct_pairs\<close>) at once, but of a
  sequence it only creates the empty list and queues the construction of the items;
  \<open>construct_document\<close> then works through the queue, in the order of queueing, and
  repeats while the items constructed have queued sequences of their own. A value under
  construction is a finished value, a sequence whose items are still queued, a sequence of
  values under construction, or the pairs of a mapping.
\<close>

datatype pvalue =
    Done yaml_value
  | Pending "yaml_node list"
  | PList "pvalue list"
  | PDict "(yaml_value \<times> pvalue) list"

text \<open>\<open>yaml.load\<close> on a text, by the name of its stream: the load of an included file or of a variable's value.\<close>

type_synonym loader = "string \<Rightarrow> string \<Rightarrow> (error + yaml_value) option"

text \<open>The key of a pair: lists and dictionaries are not hashable.\<close>

fun key_of :: "pvalue \<Rightarrow> yaml_value option" where
  "key_of (Done v) = (if hashable v then Some v else None)"
| "key_of pv = None"

definition loaded :: "(error + yaml_value) option \<Rightarrow> (error + pvalue) option" where
  "loaded r = map_option (map_sum id Done) r"

text \<open>
  The constructors of \<open>TemplateLoader\<close>: PyYAML's own for scalars and sequences,
  \<open>construct_mapping\<close>, \<open>yaml_include\<close> and \<open>yaml_get_env_variable\<close>. The last two call
  \<open>yaml.load\<close> again, on the included file or on the variable's value. The pairs of a
  mapping are kept as constructed; \<open>OrderedDict\<close> raises \<open>TypeError\<close> on a key that is
  not hashable.
\<close>

fun construct_object ::
  "loader \<Rightarrow> host \<Rightarrow> string \<Rightarrow> yaml_node \<Rightarrow> (error + pvalue) option" where
  "construct_object ld h name (ScalarNode v) = Some (Inr (Done (scalar h v)))"
| "construct_object ld h name (SequenceNode ns) = Some (Inr (Pending ns))"
| "construct_object ld h name (MappingNode kvs) =
     (case collect (concat (map (\<lambda>(k, v). [construct_object ld h name k,
                                              construct_object ld h name v]) kvs)) of
        None \<Rightarrow> None
      | Some (Inl e) \<Rightarrow> Some (Inl e)
      | Some (Inr vs) \<Rightarrow>
          if list_all (\<lambda>(k, v). key_of k \<noteq> None) (pairs vs)
          then Some (Inr (PDict (map (\<lambda>(k, v). (the (key_of k), v)) (pairs vs))))
          else Some (Inl TypeError))"
| "construct_object ld h name (IncludeNode v) =
     (let file_name = path_join (dirname name) v
      in case map_of (files h) file_name of
           None \<Rightarrow> Some (Inl (DevopsError (include_missing_message name file_name)))
         | Some text \<Rightarrow> loaded (ld file_name text))"
| "construct_object ld h name (OsEnvNode v) =
     (if strip v = [] then Some (Inl (DevopsError (env_required_message name)))
      else case env_value h v of
             None \<Rightarrow> Some (Inl (DevopsError
                        (env_unset_message (strip (hd (split1 CHR '','' v))) name)))
           | Some text \<Rightarrow> loaded (ld string_stream_name text))"

text \<open>One round: the items of every queued sequence are constructed, in the order of queueing.\<close>

fun fill :: "loader \<Rightarrow> host \<Rightarrow> string \<Rightarrow> pvalue \<Rightarrow> (error + pvalue) option" where
  "fill ld h name (Done v) = Some (Inr (Done v))"
| "fill ld h name (Pending ns) =
     (case collect (map (construct_object ld h name) ns) of
        None \<Rightarrow> None
      | Some (Inl e) \<Rightarrow> Some (Inl e)
      | Some (Inr vs) \<Rightarrow> Some (Inr (PList vs)))"
| "fill ld h name (PList vs) =
     (case collect (map (fill ld h name) vs) of
        None \<Rightarrow> None
      | Some (Inl e) \<Rightarrow> Some (Inl e)
      | Some (Inr vs') \<Rightarrow> Some (Inr (PList vs')))"
| "fill ld h name (PDict kvs) =
     (case collect (map (\<lambda>(k, v). fill ld h name v) kvs) of
        None \<Rightarrow> None
      | Some (Inl e) \<Rightarrow> Some (Inl e)
      | Some (Inr vs') \<Rightarrow> Some (Inr (PDict (zip (map fst kvs) vs'))))"

text \<open>The number of rounds a node and a value under construction still need.\<close>

fun node_height :: "yaml_node \<Rightarrow> nat" where
  "node_height (SequenceNode ns) = Suc (fold max (map node_height ns) 0)"
| "node_height (MappingNode kvs) =
     fold max (concat (map (\<lambda>(k, v). [node_height k, node_height v]) kvs)) 0"
| "node_height n = 0"

fun pending_height :: "pvalue \<Rightarrow> nat" where
  "pending_height (Done v) = 0"
| "pending_height (Pending ns) = Suc (fold max (map node_height ns) 0)"
| "pending_height (PList vs) = fold max (map pending_height vs) 0"
| "pending_height (PDict kvs) = fold max (map (\<lambda>(k, v). pending_height v) kvs) 0"

fun rounds :: "nat \<Rightarrow> loader \<Rightarrow> host \<Rightarrow> string \<Rightarrow> pvalue \<Rightarrow> (error + pvalue) option" where
  "rounds 0 ld h name pv = Some (Inr pv)"
| "rounds (Suc k) ld h name pv =
     (case fill ld h name pv of
        None \<Rightarrow> None
      | Some (Inl e) \<Rightarrow> Some (Inl e)
      | Some (Inr pv') \<Rightarrow> rounds k ld h name pv')"

text \<open>The value, once no sequence is queued: the pairs of a mapping become its \<open>OrderedDict\<close>.\<close>

fun finalize :: "pvalue \<Rightarrow> yaml_value" where
  "finalize (Done v) = v"
| "finalize (Pending ns) = Sequence []"
| "finalize (PList vs) = Sequence (map finalize vs)"
| "finalize (PDict kvs) = OrderedDict (dict_of (map (\<lambda>(k, v). (k, finalize v)) kvs))"

definition construct_document ::
  "loader \<Rightarrow> host \<Rightarrow> string \<Rightarrow> yaml_node \<Rightarrow> (error + yaml_value) option" where
  "construct_document ld h name node =
     (case construct_object ld h name node of
        None \<Rightarrow> None
      | Some (Inl e) \<Rightarrow> Some (Inl e)
      | Some (Inr pv) \<Rightarrow>
          (case rounds (pending_height pv) ld h name pv of
             None \<Rightarrow> None
           | Some (Inl e) \<Rightarrow> Some (Inl e)
           | Some (Inr pv') \<Rightarrow> Some (Inr (finalize pv'))))"

text \<open>\<open>yaml.load(stream, TemplateLoader)\<close> on the text of a stream named \<open>name\<close>.\<close>

definition load_with :: "loader \<Rightarrow> host \<Rightarrow> string \<Rightarrow> string \<Rightarrow> (error + yaml_value) option" where
  "load_with ld h name text =
     (case compose h text of
        Inl e \<Rightarrow> Some (Inl e)
      | Inr None \<Rightarrow> Some (Inr PyNone)
      | Inr (Some node) \<Rightarrow> construct_document ld h name node)"

text \<open>
  A load may not return, as its directives load again. \<open>nested_load n\<close> is the load that
  may nest \<open>n\<close> deep: its result is \<open>None\<close> when that is not enough. \<open>construct n\<close> and
  \<open>yaml_load n\<close> are the construction of a document and the load of a text whose
  directives may nest \<open>n\<close> deep.
\<close>

primrec nested_load :: "nat \<Rightarrow> host \<Rightarrow> loader" where
  "nested_load 0 h = (\<lambda>name text. None)"
| "nested_load (Suc n) h = load_with (nested_load n h) h"

definition construct :: "nat \<Rightarrow> host \<Rightarrow> string \<Rightarrow> yaml_node \<Rightarrow> (error + yaml_value) option" where
  "construct n h name node = construct_document (nested_load n h) h name node"

definition yaml_load :: "nat \<Rightarrow> host \<Rightarrow> string \<Rightarrow> string \<Rightarrow> (error + yaml_value) option" where
  "yaml_load n h name text = load_with (nested_load n h) h name text"

definition yaml_template_load :: "nat \<Rightarrow> host \<Rightarrow> string \<Rightarrow> (error + yaml_value) option" where
  "yaml_template_load n h config_file =
     (case map_of (files h) config_file of
        None \<Rightarrow> Some (Inl (DevopsError (template_missing_message config_file)))
      | Some text \<Rightarrow> yaml_load n h config_file text)"

text \<open>
  A parser of one-node documents for the examples: a text that starts with \<open>!include\<close> or
  \<open>!os_env\<close> and a space is that directive, and any other text is a plain scalar.
\<close>

definition simple_compose :: "string \<Rightarrow> error + yaml_node option" where
  "simple_compose text =
     (if text = [] then Inr None
      else if prefix ''!include '' text then Inr (Some (IncludeNode (drop 9 text)))
      else if prefix ''!os_env '' text then Inr (Some (OsEnvNode (drop 8 text)))
      else Inr (Some (ScalarNode text)))"

subsection \<open>Properties of the loader\<close>

text \<open>Two files that include each other, a file that includes itself, and a file with an
  \<open>!os_env\<close> directive.\<close>

definition example_host :: host where
  "example_host = \<lparr> compose = simple_compose,
                     scalar = Scalar,
                     files = [(''/env/a.yaml'', ''!include b.yaml''),
                              (''/env/b.yaml'', ''!include a.yaml''),
                              (''/env/self.yaml'', ''!include self.yaml''),
                              (''/env/c.yaml'', ''!os_env FOO,bar'')],
                     environ = [] \<rparr>"

text \<open>
  The rounds of \<open>construct_document\<close> leave no sequence queued, and a sequence nested in
  a mapping is constructed after the mapping's other values: an unset variable beside it
  is reported before the included file is opened.
\<close>

lemma collect_Inr:
  "collect rs = Some (Inr vs) \<Longrightarrow> rs = map (\<lambda>v. Some (Inr v)) vs"
  by (induction rs arbitrary: vs rule: collect.induct) (auto split: option.splits sum.splits)

lemma fold_max_le: "fold max xs (a::nat) \<le> b \<longleftrightarrow> a \<le> b \<and> (\<forall>x \<in> set xs. x \<le> b)"
  by (induction xs arbitrary: a) auto

lemma key_of_height: "key_of k = Some v \<Longrightarrow> pending_height k = 0"
  by (cases k) (auto split: if_splits)

lemma pairs_set:
  "(k, v) \<in> set (pairs xs) \<Longrightarrow> k \<in> set xs \<and> v \<in> set xs"
  by (induction xs rule: pairs.induct) auto

lemma loaded_height: "map_sum id Done z = Inr pv \<Longrightarrow> pending_height pv = 0"
  by (cases z) auto

lemma construct_object_height:
  "construct_object ld h name node = Some (Inr pv) \<Longrightarrow> pending_height pv \<le> node_height node"
proof (induction ld h name node arbitrary: pv rule: construct_object.induct)
  case (3 ld h name kvs)
  from "3.prems" obtain vs where
    c: "collect (concat (map (\<lambda>(k, v). [construct_object ld h name k,
                                              construct_object ld h name v]) kvs)) = Some (Inr vs)"
    and pv: "pv = PDict (map (\<lambda>(k, v). (the (key_of k), v)) (pairs vs))"
    by (auto split: option.splits sum.splits if_splits)
  have "pending_height x \<le> node_height (MappingNode kvs)" if "x \<in> set vs" for x
  proof -
    from collect_Inr[OF c] that
    have "Some (Inr x) \<in> set (concat (map (\<lambda>(k, v). [construct_object ld h name k,
                                              construct_object ld h name v]) kvs))"
      by (metis (no_types, lifting) image_eqI set_map)
    then obtain k v where kv: "(k, v) \<in> set kvs"
      "construct_object ld h name k = Some (Inr x) \<or> construct_object ld h name v = Some (Inr x)"
      by auto
    then have "pending_height x \<le> node_height k \<or> pending_height x \<le> node_height v"
      using "3.IH" by blast
    moreover have "node_height k \<le> node_height (MappingNode kvs)"
      "node_height v \<le> node_height (MappingNode kvs)"
      using kv(1) fold_max_le[of "concat (map (\<lambda>(k, v). [node_height k, node_height v]) kvs)" 0
          "node_height (MappingNode kvs)"]
      by force+
    ultimately show ?thesis by linarith
  qed
  then show ?case
    unfolding pv by (auto simp: fold_max_le dest: pairs_set)
qed (auto simp: loaded_def Let_def split: option.splits sum.splits if_splits
       dest: loaded_height)

lemma zip_collected:
  "collect (map f kvs) = Some (Inr vs) \<Longrightarrow> length vs = length kvs"
  by (drule collect_Inr) (metis length_map)

lemma fill_height:
  "fill ld h name pv = Some (Inr pv') \<Longrightarrow> pending_height pv' \<le> pending_height pv - 1"
proof (induction ld h name pv arbitrary: pv' rule: fill.induct)
  case (1 ld h name v)
  then show ?case by auto
next
  case (2 ld h name ns)
  from "2.prems" obtain vs where
    c: "collect (map (construct_object ld h name) ns) = Some (Inr vs)" and pv: "pv' = PList vs"
    by (auto split: option.splits sum.splits)
  have "pending_height x \<le> fold max (map node_height ns) 0" if "x \<in> set vs" for x
  proof -
    from collect_Inr[OF c] that obtain n where "n \<in> set ns"
      "construct_object ld h name n = Some (Inr x)"
      by (metis (no_types, lifting) image_iff set_map)
    then show ?thesis
      using construct_object_height fold_max_le[of "map node_height ns" 0
          "fold max (map node_height ns) 0"]
      by fastforce
  qed
  then show ?case by (simp add: pv fold_max_le)
next
  case (3 ld h name vs)
  from "3.prems" obtain vs' where
    c: "collect (map (fill ld h name) vs) = Some (Inr vs')" and pv: "pv' = PList vs'"
    by (auto split: option.splits sum.splits)
  have "pending_height x \<le> fold max (map pending_height vs) 0 - 1" if "x \<in> set vs'" for x
  proof -
    from collect_Inr[OF c] that obtain v where v: "v \<in> set vs" "fill ld h name v = Some (Inr x)"
      by (metis (no_types, lifting) image_iff set_map)
    then have "pending_height x \<le> pending_height v - 1"
      using "3.IH" by blast
    moreover have "pending_height v \<le> fold max (map pending_height vs) 0"
      using v(1) fold_max_le[of "map pending_height vs" 0 "fold max (map pending_height vs) 0"]
      by simp
    ultimately show ?thesis by linarith
  qed
  then show ?case by (simp add: pv fold_max_le)
next
  case (4 ld h name kvs)
  from "4.prems" obtain vs' where
    c: "collect (map (\<lambda>(k, v). fill ld h name v) kvs) = Some (Inr vs')"
    and pv: "pv' = PDict (zip (map fst kvs) vs')"
    by (auto split: option.splits sum.splits)
  have "pending_height x \<le> fold max (map (\<lambda>(k, v). pending_height v) kvs) 0 - 1"
    if "x \<in> set vs'" for x
  proof -
    from collect_Inr[OF c] that
    have "Some (Inr x) \<in> set (map (\<lambda>(k, v). fill ld h name v) kvs)"
      by (metis (no_types, lifting) image_eqI set_map)
    then obtain k v where v: "(k, v) \<in> set kvs" "fill ld h name v = Some (Inr x)"
      by auto
    then have "pending_height x \<le> pending_height v - 1"
      using "4.IH" by blast
    moreover have "pending_height v \<le> fold max (map (\<lambda>(k, v). pending_height v) kvs) 0"
      using v(1) fold_max_le[of "map (\<lambda>(k, v). pending_height v) kvs" 0
          "fold max (map (\<lambda>(k, v). pending_height v) kvs) 0"]
      by force
    ultimately show ?thesis by linarith
  qed
  then show ?case
    unfolding pv by (auto simp: fold_max_le dest!: set_zip_rightD)
qed

lemma rounds_height:
  "rounds k ld h name pv = Some (Inr pv') \<Longrightarrow> pending_height pv \<le> k \<Longrightarrow> pending_height pv' = 0"
proof (induction k arbitrary: pv)
  case 0
  then show ?case by simp
next
  case (Suc k)
  from Suc.prems(1) obtain pv1 where f: "fill ld h name pv = Some (Inr pv1)"
    and r: "rounds k ld h name pv1 = Some (Inr pv')"
    by (auto split: option.splits sum.splits)
  from fill_height[OF f] Suc.prems(2) have "pending_height pv1 \<le> k" by simp
  with Suc.IH[OF r] show ?case .
qed


lemma construct_document_complete:
  assumes "construct_object ld h name node = Some (Inr pv)"
    and "rounds (pending_height pv) ld h name pv = Some (Inr pv')"
  shows "pending_height pv' = 0"
  using assms(2) by (rule rounds_height) simp

lemma deferred_sequence_example:
  "construct n example_host ''/env/x.yaml''
     (MappingNode [(ScalarNode ''a'', SequenceNode [IncludeNode ''self.yaml'']),
                   (ScalarNode ''b'', OsEnvNode ''UNSET'')])
   = Some (Inl (DevopsError (env_unset_message ''UNSET'' ''/env/x.yaml'')))"
  by (simp add: construct_def construct_document_def env_value_def split1_def strip_def
        is_space_def example_host_def)

lemma document_of_loaded:
  "(case loaded r of
      None \<Rightarrow> None
    | Some (Inl e) \<Rightarrow> Some (Inl e)
    | Some (Inr pv) \<Rightarrow>
        (case rounds (pending_height pv) ld h name pv of
           None \<Rightarrow> None
         | Some (Inl e) \<Rightarrow> Some (Inl e)
         | Some (Inr pv') \<Rightarrow> Some (Inr (finalize pv')))) = r"
proof (cases r)
  case None
  then show ?thesis by (simp add: loaded_def)
next
  case (Some x)
  then show ?thesis by (cases x) (simp_all add: loaded_def)
qed

lemma nested_load_cases:
  "nested_load n h name body = (case n of 0 \<Rightarrow> None | Suc m \<Rightarrow> yaml_load m h name body)"
  by (cases n) (simp_all add: yaml_load_def)

lemma yaml_load_unfold:
  "yaml_load n h name body =
     (case compose h body of
        Inl e \<Rightarrow> Some (Inl e)
      | Inr None \<Rightarrow> Some (Inr PyNone)
      | Inr (Some node) \<Rightarrow> construct n h name node)"
  by (simp add: yaml_load_def load_with_def construct_def split: sum.splits option.splits)


lemma construct_IncludeNode:
  "construct n h name (IncludeNode v) =
     (let file_name = path_join (dirname name) v
      in case map_of (files h) file_name of
           None \<Rightarrow> Some (Inl (DevopsError (include_missing_message name file_name)))
         | Some body \<Rightarrow> (case n of 0 \<Rightarrow> None | Suc m \<Rightarrow> yaml_load m h file_name body))"
  by (simp add: construct_def construct_document_def Let_def document_of_loaded
        nested_load_cases split: option.splits)


lemma construct_include_existing:
  assumes "map_of (files h) (path_join (dirname name) v) = Some text"
  shows "construct 0 h name (IncludeNode v) = None"
    and "construct (Suc n) h name (IncludeNode v)
           = yaml_load n h (path_join (dirname name) v) text"
  using assms by (simp_all add: construct_IncludeNode Let_def)

lemma include_cycle_diverges:
  assumes "\<forall>p \<in> C. \<exists>q \<in> C. \<exists>text v. map_of (files h) p = Some text
              \<and> compose h text = Inr (Some (IncludeNode v))
              \<and> path_join (dirname p) v = q"
  shows "\<forall>p \<in> C. yaml_template_load n h p = None"
proof (induction n)
  case 0
  show ?case
  proof
    fix p assume "p \<in> C"
    with assms obtain q body v where p: "map_of (files h) p = Some body"
      "compose h body = Inr (Some (IncludeNode v))" "path_join (dirname p) v = q" "q \<in> C"
      by blast
    from assms p(4) obtain qtext where q: "map_of (files h) q = Some qtext"
      by blast
    show "yaml_template_load 0 h p = None"
      using q by (simp add: yaml_template_load_def yaml_load_unfold construct_IncludeNode p Let_def)
  qed
next
  case (Suc n)
  show ?case
  proof
    fix p assume "p \<in> C"
    with assms obtain q body v where p: "map_of (files h) p = Some body"
      "compose h body = Inr (Some (IncludeNode v))" "path_join (dirname p) v = q" "q \<in> C"
      by blast
    from assms p(4) obtain qtext where q: "map_of (files h) q = Some qtext"
      by blast
    have "yaml_template_load (Suc n) h p = yaml_load n h q qtext"
      using q by (simp add: yaml_template_load_def yaml_load_unfold construct_IncludeNode p Let_def)
    also have "\<dots> = yaml_template_load n h q"
      by (simp add: yaml_template_load_def q)
    also have "\<dots> = None"
      using Suc.IH p(4) by blast
    finally show "yaml_template_load (Suc n) h p = None" .
  qed
qed

lemma example_host_cycle:
  "\<forall>p \<in> {''/env/a.yaml'', ''/env/b.yaml'', ''/env/self.yaml''}.
     \<exists>q \<in> {''/env/a.yaml'', ''/env/b.yaml'', ''/env/self.yaml''}.
       \<exists>text v. map_of (files example_host) p = Some text
              \<and> compose example_host text = Inr (Some (IncludeNode v))
              \<and> path_join (dirname p) v = q"
  by (simp add: example_host_def simple_compose_def dirname_def path_join_def)

text \<open>
  Claim C5, as the code has it. Let \<open>C\<close> be a set of files each of which is an \<open>!include\<close>
  of a file of \<open>C\<close> again (a file that includes itself, or files that include each other in
  a cycle). The loader keeps no record of the files it is resolving: \<open>yaml_include\<close> opens
  the included file and loads it with a new loader, so loading a file of \<open>C\<close> never
  returns, neither a document nor an error, however deep the nesting of loads may go.
  (CPython ends such a recursion with its own recursion-limit error.)
\<close>

theorem include_cycle_never_returns:
  assumes "\<forall>p \<in> C. \<exists>q \<in> C. \<exists>text v. map_of (files h) p = Some text
              \<and> compose h text = Inr (Some (IncludeNode v))
              \<and> path_join (dirname p) v = q"
    and "p \<in> C"
  shows "yaml_template_load n h p = None"
  using include_cycle_diverges[OF assms(1)] assms(2) by blast

theorem include_cycle_never_returns_witness:
  "yaml_template_load 1000 example_host ''/env/a.yaml'' = None
   \<and> yaml_template_load 1000 example_host ''/env/self.yaml'' = None"
  using include_cycle_never_returns[OF example_host_cycle, of "''/env/a.yaml''" 1000]
    include_cycle_never_returns[OF example_host_cycle, of "''/env/self.yaml''" 1000]
  by simp

text \<open>
  The claim as stated has the loader stop at a cycle with its configuration error; on the
  file that includes itself and on the two files that include each other, no depth of
  nesting gives a result.
\<close>

theorem include_cycle_counterexample:
  "\<forall>n. yaml_template_load n example_host ''/env/self.yaml'' = None
     \<and> yaml_template_load n example_host ''/env/a.yaml'' = None"
  using include_cycle_diverges[OF example_host_cycle] by simp



end
